theory Spec2Isabelle
  imports Main "HOL-Library.Sublist"
begin

section \<open>JavaScript values and the environment\<close>

text \<open>
  The job workflow lives in three source files: the job store helpers
  (\<^verbatim>\<open>src/utils/supabase.ts\<close>), the proxy route with the submission endpoint, the job
  processor and the status endpoint (\<^verbatim>\<open>unnamed/part_004\<close>), and the client poll loop
  (\<^verbatim>\<open>src/app/page.tsx\<close>).  The route handles untyped JSON (\<^verbatim>\<open>data: any\<close>,
  \<^verbatim>\<open>JSON.parse\<close>), so JSON values are a datatype.  Numbers are restricted to integers;
  an object is the list of its members, each key once, looked up by key.
\<close>

datatype json =
    JNull
  | JBool bool
  | JNum int
  | JStr string
  | JArr "json list"
  | JObj "(string \<times> json) list"

text \<open>A thrown value: an \<^verbatim>\<open>Error\<close> instance with its message, or anything else.\<close>

datatype js_exn = JsError string | JsOther

text \<open>\<^verbatim>\<open>error instanceof Error ? error.message : 'Unknown error'\<close>.\<close>

definition error_message :: "js_exn \<Rightarrow> string" where
  "error_message e = (case e of JsError m \<Rightarrow> m | JsOther \<Rightarrow> ''Unknown error'')"

text \<open>
  What the program takes from outside itself and the model therefore takes as parameters:
  \<^verbatim>\<open>JSON.parse\<close> (\<open>None\<close> when it throws), the string conversion a template literal
  applies to a value that is not a string, the message of the \<^verbatim>\<open>TypeError\<close> raised by a
  property read on \<^verbatim>\<open>null\<close>, and the database's conversion of a JSON value that is
  neither a string nor \<^verbatim>\<open>null\<close> into a \<^verbatim>\<open>TEXT\<close> column (\<open>None\<close> when the database
  rejects the value).
\<close>

record js_env =
  JSON_parse :: "string \<Rightarrow> json option"
  String_of :: "json \<Rightarrow> string"
  TypeError_msg :: "string \<Rightarrow> string"
  db_text :: "json \<Rightarrow> string option"

text \<open>
  The clock readings a handler takes: \<^verbatim>\<open>Date.now()\<close>,
  \<^verbatim>\<open>new Date().toLocaleString()\<close> and \<^verbatim>\<open>new Date().toISOString()\<close>.
\<close>

record clock =
  now_ms :: nat
  now_locale :: string
  now_iso :: string

text \<open>JavaScript truthiness, as \<^verbatim>\<open>||\<close>, \<^verbatim>\<open>if\<close> and \<^verbatim>\<open>?:\<close> test it.\<close>

fun truthy :: "json \<Rightarrow> bool" where
  "truthy JNull = False"
| "truthy (JBool b) = b"
| "truthy (JNum n) = (n \<noteq> 0)"
| "truthy (JStr s) = (s \<noteq> [])"
| "truthy (JArr xs) = True"
| "truthy (JObj kvs) = True"

text \<open>
  \<^verbatim>\<open>v.k\<close>: throws a \<^verbatim>\<open>TypeError\<close> on \<^verbatim>\<open>null\<close>, is the member of an object, and is
  \<^verbatim>\<open>undefined\<close> (\<open>None\<close>) on a missing member and on every other value (the keys read
  here are \<^verbatim>\<open>html\<close>, \<^verbatim>\<open>projectId\<close> and \<^verbatim>\<open>prompt\<close>).
\<close>

fun js_prop :: "js_env \<Rightarrow> json \<Rightarrow> string \<Rightarrow> js_exn + json option" where
  "js_prop env JNull k = Inl (JsError (TypeError_msg env k))"
| "js_prop env (JObj kvs) k = Inr (map_of kvs k)"
| "js_prop env v k = Inr None"

text \<open>\<^verbatim>\<open>a || b\<close> where \<^verbatim>\<open>a\<close> may be \<^verbatim>\<open>undefined\<close>.\<close>

definition js_or :: "json option \<Rightarrow> json \<Rightarrow> json" where
  "js_or a b = (case a of None \<Rightarrow> b | Some v \<Rightarrow> if truthy v then v else b)"

text \<open>\<^verbatim>\<open>a || b\<close> where \<^verbatim>\<open>a\<close> is a string or \<^verbatim>\<open>null\<close>/\<^verbatim>\<open>undefined\<close>.\<close>

definition str_or :: "string option \<Rightarrow> string \<Rightarrow> string" where
  "str_or a b = (case a of None \<Rightarrow> b | Some s \<Rightarrow> if s \<noteq> [] then s else b)"

text \<open>\<^verbatim>\<open>${v}\<close> in a template literal.\<close>

definition template_str :: "js_env \<Rightarrow> json \<Rightarrow> string" where
  "template_str env v = (case v of JStr s \<Rightarrow> s | _ \<Rightarrow> String_of env v)"

text \<open>\<^verbatim>\<open>${n}\<close> for a non-negative integer: its decimal digits.\<close>

function string_of_nat :: "nat \<Rightarrow> string" where
  "string_of_nat n =
     (if n < 10 then [''0123456789'' ! n]
      else string_of_nat (n div 10) @ [''0123456789'' ! (n mod 10)])"
  by pat_completeness auto
termination
  by (relation "measure id") auto

declare string_of_nat.simps [simp del]

definition nl :: string where
  "nl = [CHR 0x0A]"

text \<open>A stored column read back into JSON: \<^verbatim>\<open>null\<close> when the column is \<^verbatim>\<open>NULL\<close>.\<close>

definition json_of_text :: "string option \<Rightarrow> json" where
  "json_of_text a = (case a of None \<Rightarrow> JNull | Some s \<Rightarrow> JStr s)"

definition json_of_column :: "json option \<Rightarrow> json" where
  "json_of_column a = (case a of None \<Rightarrow> JNull | Some v \<Rightarrow> v)"

section \<open>The job store (\<^verbatim>\<open>src/utils/supabase.ts\<close>)\<close>

datatype job_status = Pending | Processing | Completed | Failed

fun status_name :: "job_status \<Rightarrow> string" where
  "status_name Pending = ''pending''"
| "status_name Processing = ''processing''"
| "status_name Completed = ''completed''"
| "status_name Failed = ''failed''"

text \<open>
  \<^verbatim>\<open>interface DocumentJob\<close>, a row of the table \<^verbatim>\<open>document_jobs\<close>.  The nullable
  columns are options; timestamps are instants on a discrete time line.
\<close>

record DocumentJob =
  job_id :: string
  status :: job_status
  prompt :: string
  html :: "string option"
  project_id :: "string option"
  error :: "string option"
  result :: "json option"
  created_at :: nat
  updated_at :: nat

text \<open>The table: at most one row for a \<^verbatim>\<open>job_id\<close>, the primary key.\<close>

type_synonym job_table = "string \<rightharpoonup> DocumentJob"

text \<open>
  The \<^verbatim>\<open>updates\<close> argument of \<^verbatim>\<open>updateDocumentJob\<close>,
  \<^verbatim>\<open>Partial<Omit<DocumentJob, 'job_id' | 'created_at' | 'updated_at'>>\<close>: every field may
  be left out (\<open>None\<close>); a field whose value is \<^verbatim>\<open>undefined\<close> is not sent either.  The
  processor fills \<^verbatim>\<open>html\<close>, \<^verbatim>\<open>project_id\<close> and \<^verbatim>\<open>result\<close> from parsed JSON, so these
  carry JSON values.
\<close>

record job_updates =
  u_status :: "job_status option"
  u_prompt :: "string option"
  u_html :: "json option"
  u_project_id :: "json option"
  u_error :: "string option"
  u_result :: "json option"

definition no_updates :: job_updates where
  "no_updates = \<lparr>u_status = None, u_prompt = None, u_html = None, u_project_id = None,
     u_error = None, u_result = None\<rparr>"

text \<open>
  The new value of a nullable \<^verbatim>\<open>TEXT\<close> column under an update: unchanged when the field
  is not sent, \<^verbatim>\<open>NULL\<close> for \<^verbatim>\<open>null\<close>, the string itself, and the database's conversion
  otherwise; \<open>None\<close> when the database rejects the value.
\<close>

fun text_column :: "js_env \<Rightarrow> json option \<Rightarrow> string option \<Rightarrow> string option option" where
  "text_column env None old = Some old"
| "text_column env (Some JNull) old = Some None"
| "text_column env (Some (JStr s)) old = Some (Some s)"
| "text_column env (Some v) old = map_option Some (db_text env v)"

definition merge_opt :: "'a option \<Rightarrow> 'a \<Rightarrow> 'a" where
  "merge_opt u old = (case u of None \<Rightarrow> old | Some v \<Rightarrow> v)"

definition merge_nullable :: "'a option \<Rightarrow> 'a option \<Rightarrow> 'a option" where
  "merge_nullable u old = (case u of None \<Rightarrow> old | Some v \<Rightarrow> Some v)"

definition merge_json :: "json option \<Rightarrow> json option \<Rightarrow> json option" where
  "merge_json u old = (case u of None \<Rightarrow> old | Some JNull \<Rightarrow> None | Some v \<Rightarrow> Some v)"

text \<open>
  \<^verbatim>\<open>createDocumentJob(prompt)\<close>: inserts \<^verbatim>\<open>{ prompt }\<close> and nothing else, so every other
  column takes its default from the table definition: a generated \<^verbatim>\<open>job_id\<close>
  (\<open>fresh_id\<close>, chosen by the database), \<^verbatim>\<open>status\<close> \<^verbatim>\<open>'pending'\<close>, \<^verbatim>\<open>now()\<close> for both
  timestamps and \<^verbatim>\<open>NULL\<close> for \<^verbatim>\<open>html\<close>, \<^verbatim>\<open>project_id\<close>, \<^verbatim>\<open>error\<close> and \<^verbatim>\<open>result\<close>.
  \<open>db_ok\<close> says whether the request reaches the database and is carried out; an error
  (also a primary key that exists, or a prompt the \<^verbatim>\<open>NOT NULL\<close> column refuses) is
  logged and \<^verbatim>\<open>null\<close> returned.
\<close>

definition createDocumentJob ::
  "js_env \<Rightarrow> bool \<Rightarrow> string \<Rightarrow> nat \<Rightarrow> json \<Rightarrow> job_table \<Rightarrow> DocumentJob option \<times> job_table" where
  "createDocumentJob env db_ok fresh_id now p rows =
     (if \<not> db_ok \<or> rows fresh_id \<noteq> None then (None, rows)
      else case text_column env (Some p) None of
          Some (Some ptext) \<Rightarrow>
            (let job = \<lparr>job_id = fresh_id, status = Pending, prompt = ptext, html = None,
                        project_id = None, error = None, result = None,
                        created_at = now, updated_at = now\<rparr>
             in (Some job, rows(fresh_id \<mapsto> job)))
        | _ \<Rightarrow> (None, rows))"

text \<open>
  \<^verbatim>\<open>getDocumentJob(jobId)\<close>: \<^verbatim>\<open>.single()\<close> reports an error when no row matches, and
  every error (also a failed request) is logged and \<^verbatim>\<open>null\<close> returned.
\<close>

definition getDocumentJob :: "bool \<Rightarrow> string \<Rightarrow> job_table \<Rightarrow> DocumentJob option" where
  "getDocumentJob db_ok jobId rows = (if \<not> db_ok then None else rows jobId)"

text \<open>
  \<^verbatim>\<open>updateDocumentJob(jobId, updates)\<close>: sends the fields of \<^verbatim>\<open>updates\<close> to the row with
  this \<^verbatim>\<open>job_id\<close>; an error is logged and \<^verbatim>\<open>false\<close> returned.  An update that matches no
  row is no error.
\<close>

definition updateDocumentJob ::
  "js_env \<Rightarrow> bool \<Rightarrow> string \<Rightarrow> job_updates \<Rightarrow> job_table \<Rightarrow> bool \<times> job_table" where
  "updateDocumentJob env db_ok jobId updates rows =
     (if \<not> db_ok then (False, rows)
      else case rows jobId of
          None \<Rightarrow> (True, rows)
        | Some job \<Rightarrow>
            (case (text_column env (u_html updates) (html job),
                   text_column env (u_project_id updates) (project_id job)) of
               (Some h, Some p) \<Rightarrow>
                 (True, rows(jobId \<mapsto> job\<lparr>
                    status := merge_opt (u_status updates) (status job),
                    prompt := merge_opt (u_prompt updates) (prompt job),
                    html := h,
                    project_id := p,
                    error := merge_nullable (u_error updates) (error job),
                    result := merge_json (u_result updates) (result job)\<rparr>))
             | _ \<Rightarrow> (False, rows)))"

section \<open>The proxy route (\<^verbatim>\<open>unnamed/part_004\<close>)\<close>

subsection \<open>Synthesized documents\<close>

text \<open>
  \<^verbatim>\<open>createFallbackHtml(prompt = "", errorMessage = "")\<close>; the time stamp is
  \<^verbatim>\<open>new Date().toLocaleString()\<close>.
\<close>

definition createFallbackHtml :: "clock \<Rightarrow> string \<Rightarrow> string \<Rightarrow> string" where
  "createFallbackHtml clk p errorMessage =
     nl @ ''    <div>'' @ nl
     @ ''      <h1>Sample Document</h1>'' @ nl
     @ ''      <p>This is a fallback document generated because we couldn't process your request properly.</p>'' @ nl
     @ ''      '' @ (if errorMessage \<noteq> [] then ''<p><strong>Error:</strong> '' @ errorMessage @ ''</p>'' else [])
     @ nl
     @ ''      <p>Your prompt was: \"'' @ p @ ''\"</p>'' @ nl
     @ ''      <hr>'' @ nl
     @ ''      <p>Generated at: '' @ now_locale clk @ ''</p>'' @ nl
     @ ''    </div>'' @ nl
     @ ''  ''"

text \<open>\<^verbatim>\<open>createLoadingHtml(prompt = "")\<close>.\<close>

definition createLoadingHtml :: "clock \<Rightarrow> string \<Rightarrow> string" where
  "createLoadingHtml clk p =
     nl @ ''    <div>'' @ nl
     @ ''      <h1>Processing Your Request</h1>'' @ nl
     @ ''      <div style=\"margin: 20px 0; padding: 15px; border-left: 4px solid #3498db; background-color: #f8f9fa;\">'' @ nl
     @ ''        <p>We're working on generating your document from the prompt:</p>'' @ nl
     @ ''        <p><em>\"'' @ p @ ''\"</em></p>'' @ nl
     @ ''      </div>'' @ nl
     @ ''      '' @ nl
     @ ''      <div style=\"margin: 20px 0; text-align: center;\">'' @ nl
     @ ''        <div style=\"display: inline-block; width: 50px; height: 50px; border: 5px solid #f3f3f3; '' @ nl
     @ ''                    border-top: 5px solid #3498db; border-radius: 50%; animation: spin 1s linear infinite;\"></div>'' @ nl
     @ ''        <p>This may take up to 2 minutes to complete...</p>'' @ nl
     @ ''        <style>'' @ nl
     @ ''          @keyframes spin {'' @ nl
     @ ''            0% { transform: rotate(0deg); }'' @ nl
     @ ''            100% { transform: rotate(360deg); }'' @ nl
     @ ''          }'' @ nl
     @ ''        </style>'' @ nl
     @ ''      </div>'' @ nl
     @ ''      '' @ nl
     @ ''      <p>The system is working on your document. Please wait while we process your request.</p>'' @ nl
     @ ''      <hr>'' @ nl
     @ ''      <p>Started at: '' @ now_locale clk @ ''</p>'' @ nl
     @ ''    </div>'' @ nl
     @ ''  ''"

text \<open>
  \<^verbatim>\<open>isHtmlContent(text)\<close>.  \<^verbatim>\<open>String.prototype.trim\<close> removes white space and line
  terminators at both ends.  A \<open>char\<close> is a code unit below 256, and of the code units
  that \<^verbatim>\<open>trim\<close> removes those below 256 are the tab, the line feed, the vertical tab,
  the form feed, the carriage return, the space and the no-break space (U+00A0).
\<close>

definition is_space :: "char \<Rightarrow> bool" where
  "is_space c =
     (c \<in> {CHR '' '', CHR 0x09, CHR 0x0A, CHR 0x0B, CHR 0x0C, CHR 0x0D, CHR 0xA0})"

definition trim :: "string \<Rightarrow> string" where
  "trim s = rev (dropWhile is_space (rev (dropWhile is_space s)))"

definition isHtmlContent :: "string \<Rightarrow> bool" where
  "isHtmlContent txt =
     (prefix ''<!DOCTYPE'' (trim txt) \<or> prefix ''<html'' (trim txt)
      \<or> (CHR ''<'' \<in> set txt \<and> CHR ''>'' \<in> set txt))"

subsection \<open>The status endpoint\<close>

text \<open>\<^verbatim>\<open>NextResponse.json(body, { status })\<close>; the status is 200 when none is given.\<close>

record http_response =
  code :: nat
  body :: json

text \<open>
  \<^verbatim>\<open>checkJobStatus(jobId)\<close>.  The branches follow the source: absence, then
  \<^verbatim>\<open>pending\<close> or \<^verbatim>\<open>processing\<close>, then \<^verbatim>\<open>failed\<close>, and what is left is \<^verbatim>\<open>completed\<close>.
\<close>

definition checkJobStatus :: "bool \<Rightarrow> clock \<Rightarrow> string \<Rightarrow> job_table \<Rightarrow> http_response" where
  "checkJobStatus db_ok clk jobId rows =
     (case getDocumentJob db_ok jobId rows of
        None \<Rightarrow>
          \<lparr>code = 404,
           body = JObj [(''error'', JStr ''Job not found''), (''status'', JStr ''not_found'')]\<rparr>
      | Some job \<Rightarrow>
          if status job = Pending \<or> status job = Processing then
            \<lparr>code = 200,
             body = JObj [
               (''status'', JStr (status_name (status job))),
               (''message'', JStr ''Your request is still being processed''),
               (''html'', JStr (str_or (html job) (createLoadingHtml clk (prompt job)))),
               (''projectId'', JStr (str_or (project_id job) (''pending-'' @ jobId)))]\<rparr>
          else if status job = Failed then
            \<lparr>code = 200,
             body = JObj [
               (''status'', JStr ''failed''),
               (''error'', JStr (str_or (error job) ''Unknown error'')),
               (''html'', JStr (str_or (html job)
                  (createFallbackHtml clk (prompt job) (str_or (error job) ''Unknown error'')))),
               (''projectId'', JStr (str_or (project_id job) (''failed-'' @ jobId)))]\<rparr>
          else
            \<lparr>code = 200,
             body = JObj [
               (''status'', JStr ''completed''),
               (''result'', json_of_column (result job)),
               (''html'', json_of_text (html job)),
               (''projectId'', JStr (str_or (project_id job) (''completed-'' @ jobId)))]\<rparr>)"

subsection \<open>The job processor\<close>

text \<open>
  The outcome of \<^verbatim>\<open>fetch\<close> on the generation service: it throws, or it answers with a
  status code and a body whose \<^verbatim>\<open>text()\<close> is read (or throws).  \<^verbatim>\<open>response.ok\<close> is a
  status code from 200 to 299.
\<close>

datatype fetch_outcome = Fetch_throws js_exn | Fetch_response nat "js_exn + string"

text \<open>
  Whether each request of \<^verbatim>\<open>processJob\<close> to the database is carried out: the
  \<^verbatim>\<open>processing\<close> write, the \<^verbatim>\<open>completed\<close> write, the read in the \<^verbatim>\<open>catch\<close> block and
  the \<^verbatim>\<open>failed\<close> write.
\<close>

record db_outcomes =
  mark_ok :: bool
  complete_ok :: bool
  reread_ok :: bool
  fail_ok :: bool

text \<open>The first statement of the \<^verbatim>\<open>try\<close> block: the job is marked \<^verbatim>\<open>processing\<close>.\<close>

definition processJob_mark :: "js_env \<Rightarrow> db_outcomes \<Rightarrow> string \<Rightarrow> job_table \<Rightarrow> job_table" where
  "processJob_mark env dbo jobId rows =
     snd (updateDocumentJob env (mark_ok dbo) jobId (no_updates\<lparr>u_status := Some Processing\<rparr>) rows)"

text \<open>
  The inner \<^verbatim>\<open>try\<close>: \<^verbatim>\<open>JSON.parse\<close>, then the \<^verbatim>\<open>completed\<close> write with
  \<^verbatim>\<open>jsonData.html\<close> and \<^verbatim>\<open>jsonData.projectId\<close>.  \<open>None\<close> when something throws in it
  (the parse, or the property read on \<^verbatim>\<open>null\<close>): the inner \<^verbatim>\<open>catch\<close> drops the exception.
\<close>

definition processJob_json ::
  "js_env \<Rightarrow> db_outcomes \<Rightarrow> string \<Rightarrow> string \<Rightarrow> job_table \<Rightarrow> job_table option" where
  "processJob_json env dbo jobId responseText rows =
     (case JSON_parse env responseText of
        None \<Rightarrow> None
      | Some jsonData \<Rightarrow>
          (case js_prop env jsonData ''html'' of
             Inl e \<Rightarrow> None
           | Inr h \<Rightarrow>
               (case js_prop env jsonData ''projectId'' of
                  Inl e \<Rightarrow> None
                | Inr p \<Rightarrow>
                    Some (snd (updateDocumentJob env (complete_ok dbo) jobId
                      (no_updates\<lparr>u_status := Some Completed, u_html := h, u_project_id := p,
                         u_result := Some jsonData\<rparr>) rows)))))"

text \<open>The inner \<^verbatim>\<open>try\<close> with its \<^verbatim>\<open>catch\<close>: the body as markup, or an exception.\<close>

definition processJob_interpret ::
  "js_env \<Rightarrow> db_outcomes \<Rightarrow> string \<Rightarrow> string \<Rightarrow> job_table \<Rightarrow> js_exn + job_table" where
  "processJob_interpret env dbo jobId responseText rows =
     (case processJob_json env dbo jobId responseText rows of
        Some rows' \<Rightarrow> Inr rows'
      | None \<Rightarrow>
          if isHtmlContent responseText then
            Inr (snd (updateDocumentJob env (complete_ok dbo) jobId
              (no_updates\<lparr>u_status := Some Completed, u_html := Some (JStr responseText),
                 u_project_id := Some (JStr (''html-'' @ jobId)),
                 u_result := Some (JObj [(''html'', JStr responseText),
                                         (''projectId'', JStr (''html-'' @ jobId))])\<rparr>) rows))
          else Inl (JsError ''Invalid response format''))"

text \<open>
  The \<^verbatim>\<open>try\<close> block after the first write: the call of the generation service with the
  request payload, and the interpretation of its answer.  \<open>Inl\<close> is the exception that
  reaches the outer \<^verbatim>\<open>catch\<close>.
\<close>

definition processJob_try ::
  "js_env \<Rightarrow> (json \<Rightarrow> fetch_outcome) \<Rightarrow> db_outcomes \<Rightarrow> string \<Rightarrow> json \<Rightarrow> job_table
     \<Rightarrow> js_exn + job_table" where
  "processJob_try env webhook dbo jobId data rows =
     (case webhook data of
        Fetch_throws e \<Rightarrow> Inl e
      | Fetch_response st txt \<Rightarrow>
          if \<not> (200 \<le> st \<and> st \<le> 299) then
            Inl (JsError (''Server responded with status: '' @ string_of_nat st))
          else (case txt of
                  Inl e \<Rightarrow> Inl e
                | Inr responseText \<Rightarrow> processJob_interpret env dbo jobId responseText rows))"

text \<open>The outer \<^verbatim>\<open>catch\<close> block.\<close>

definition processJob_catch ::
  "js_env \<Rightarrow> clock \<Rightarrow> db_outcomes \<Rightarrow> string \<Rightarrow> js_exn \<Rightarrow> job_table \<Rightarrow> job_table" where
  "processJob_catch env clk dbo jobId e rows =
     (case getDocumentJob (reread_ok dbo) jobId rows of
        None \<Rightarrow> rows
      | Some job \<Rightarrow>
          (let errorMessage = error_message e;
               fallbackHtml = createFallbackHtml clk (prompt job) errorMessage
           in snd (updateDocumentJob env (fail_ok dbo) jobId
                (no_updates\<lparr>u_status := Some Failed, u_error := Some errorMessage,
                   u_html := Some (JStr fallbackHtml),
                   u_project_id := Some (JStr (''error-'' @ jobId)),
                   u_result := Some (JObj [(''html'', JStr fallbackHtml),
                                           (''projectId'', JStr (''error-'' @ jobId))])\<rparr>) rows)))"

text \<open>
  \<^verbatim>\<open>processJob(jobId, data)\<close>.  It returns the table it leaves; there is no exception
  among its results, since the outer \<^verbatim>\<open>catch\<close> takes every one of the \<^verbatim>\<open>try\<close> block and
  nothing in the \<^verbatim>\<open>catch\<close> block throws.
\<close>

definition processJob ::
  "js_env \<Rightarrow> clock \<Rightarrow> (json \<Rightarrow> fetch_outcome) \<Rightarrow> db_outcomes \<Rightarrow> string \<Rightarrow> json \<Rightarrow> job_table
     \<Rightarrow> job_table" where
  "processJob env clk webhook dbo jobId data rows =
     (let rows1 = processJob_mark env dbo jobId rows
      in case processJob_try env webhook dbo jobId data rows1 of
           Inr rows2 \<Rightarrow> rows2
         | Inl e \<Rightarrow> processJob_catch env clk dbo jobId e rows1)"

subsection \<open>The submission endpoint\<close>

text \<open>
  The request: the \<^verbatim>\<open>jobId\<close> query parameter, and what \<^verbatim>\<open>request.json()\<close> gives (it
  throws on a body that is not JSON).
\<close>

record request =
  query_jobId :: "string option"
  req_json :: "js_exn + json"

text \<open>
  What a call of \<^verbatim>\<open>POST\<close> leaves: the response, the table, and the call
  \<^verbatim>\<open>processJob(job.job_id, data)\<close> it started and did not await, if any.
\<close>

record post_result =
  response :: http_response
  rows_after :: job_table
  spawned :: "(string \<times> json) option"

text \<open>The \<^verbatim>\<open>try\<close> block of \<^verbatim>\<open>POST\<close> for a new submission.\<close>

definition POST_submit ::
  "js_env \<Rightarrow> clock \<Rightarrow> bool \<Rightarrow> string \<Rightarrow> nat \<Rightarrow> request \<Rightarrow> job_table \<Rightarrow> js_exn + post_result" where
  "POST_submit env clk db_ok fresh_id db_now req rows =
     (case req_json req of
        Inl e \<Rightarrow> Inl e
      | Inr data \<Rightarrow>
          (case js_prop env data ''prompt'' of
             Inl e \<Rightarrow> Inl e
           | Inr pf \<Rightarrow>
               (let p = js_or pf (JStr ''No prompt provided'')
                in case createDocumentJob env db_ok fresh_id db_now p rows of
                     (None, rows') \<Rightarrow> Inl (JsError ''Failed to create job record'')
                   | (Some job, rows') \<Rightarrow>
                       Inr \<lparr>response = \<lparr>code = 200, body = JObj [
                               (''jobId'', JStr (job_id job)),
                               (''status'', JStr ''pending''),
                               (''message'', JStr ''Your request is being processed''),
                               (''html'', JStr (createLoadingHtml clk (template_str env p))),
                               (''projectId'', JStr (''job-'' @ job_id job))]\<rparr>,
                            rows_after = rows',
                            spawned = Some (job_id job, data)\<rparr>)))"

text \<open>
  The submission with the \<^verbatim>\<open>catch\<close> block of \<^verbatim>\<open>POST\<close>, which answers every
  exception.  An exception is raised only before a row is stored, so the table is then as
  it was.
\<close>

definition POST_new ::
  "js_env \<Rightarrow> clock \<Rightarrow> bool \<Rightarrow> string \<Rightarrow> nat \<Rightarrow> request \<Rightarrow> job_table \<Rightarrow> post_result" where
  "POST_new env clk db_ok fresh_id db_now req rows =
     (case POST_submit env clk db_ok fresh_id db_now req rows of
        Inr r \<Rightarrow> r
      | Inl e \<Rightarrow>
          \<lparr>response = \<lparr>code = 200, body = JObj [
               (''error'', JStr (error_message e)),
               (''html'', JStr (createFallbackHtml clk ''Error processing your request'' [])),
               (''projectId'', JStr (''error-'' @ string_of_nat (now_ms clk)))]\<rparr>,
           rows_after = rows, spawned = None\<rparr>)"

text \<open>
  \<^verbatim>\<open>POST(request)\<close>: a status check when the \<^verbatim>\<open>jobId\<close> parameter is present and not
  empty, a submission otherwise.
\<close>

definition POST ::
  "js_env \<Rightarrow> clock \<Rightarrow> bool \<Rightarrow> string \<Rightarrow> nat \<Rightarrow> request \<Rightarrow> job_table \<Rightarrow> post_result" where
  "POST env clk db_ok fresh_id db_now req rows =
     (case query_jobId req of
        None \<Rightarrow> POST_new env clk db_ok fresh_id db_now req rows
      | Some jobId \<Rightarrow>
          if jobId \<noteq> [] then
            \<lparr>response = checkJobStatus db_ok clk jobId rows, rows_after = rows, spawned = None\<rparr>
          else POST_new env clk db_ok fresh_id db_now req rows)"

section \<open>The client poll loop (\<^verbatim>\<open>src/app/page.tsx\<close>)\<close>

text \<open>
  The fields of a status response that \<^verbatim>\<open>checkStatus\<close> reads: \<^verbatim>\<open>status\<close>, \<^verbatim>\<open>html\<close>,
  \<^verbatim>\<open>error\<close>, \<^verbatim>\<open>projectId\<close>, \<^verbatim>\<open>result?.html\<close> and \<^verbatim>\<open>result?.projectId\<close>, each a
  string or missing.
\<close>

record status_data =
  sd_status :: "string option"
  sd_html :: "string option"
  sd_error :: "string option"
  sd_projectId :: "string option"
  sd_result_html :: "string option"
  sd_result_projectId :: "string option"

text \<open>
  What one status request comes to: \<^verbatim>\<open>fetch\<close> throws, or there is a response with a
  status code whose \<^verbatim>\<open>json()\<close> is read (or throws).
\<close>

datatype poll_reply = Reply_throws js_exn | Reply_http nat "js_exn + status_data"

text \<open>The component state the poll loop sets.\<close>

record ui_state =
  generatedHtml :: string
  projectId :: string
  loading :: bool
  isSubmitted :: bool

text \<open>
  What the closure of \<^verbatim>\<open>pollJobStatus\<close> holds: the \<^verbatim>\<open>prompt\<close> and \<^verbatim>\<open>generatedHtml\<close> of
  the render that made it, its argument \<^verbatim>\<open>jobId\<close>, and the clock reading taken when a
  document is synthesized.
\<close>

record poll_closure =
  c_prompt :: string
  c_generatedHtml :: string
  c_jobId :: string
  c_clock :: clock

definition maxAttempts :: nat where
  "maxAttempts = 60"

definition errorHtml :: "poll_closure \<Rightarrow> status_data \<Rightarrow> string" where
  "errorHtml cl sd =
     nl @ ''            <div>'' @ nl
     @ ''              <h1>Error Generating Document</h1>'' @ nl
     @ ''              <p>We encountered an error: '' @ str_or (sd_error sd) ''Unknown error'' @ ''</p>'' @ nl
     @ ''              <p>Your prompt was: \"'' @ c_prompt cl @ ''\"</p>'' @ nl
     @ ''              <hr>'' @ nl
     @ ''              <p>Time: '' @ now_iso (c_clock cl) @ ''</p>'' @ nl
     @ ''            </div>'' @ nl
     @ ''          ''"

definition timeoutHtml :: "poll_closure \<Rightarrow> js_exn \<Rightarrow> string" where
  "timeoutHtml cl e =
     nl @ ''        <div>'' @ nl
     @ ''          <h1>Processing Timeout</h1>'' @ nl
     @ ''          <p>Your document request took too long to process.</p>'' @ nl
     @ ''          <p>Your prompt was: \"'' @ c_prompt cl @ ''\"</p>'' @ nl
     @ ''          <p>Error: '' @ error_message e @ ''</p>'' @ nl
     @ ''          <hr>'' @ nl
     @ ''          <p>Time: '' @ now_iso (c_clock cl) @ ''</p>'' @ nl
     @ ''        </div>'' @ nl
     @ ''      ''"

text \<open>
  \<^verbatim>\<open>checkStatus()\<close>: one status request.  \<open>Inl\<close> is an exception; otherwise whether
  polling is done, and the component state.
\<close>

definition checkStatus ::
  "poll_closure \<Rightarrow> poll_reply \<Rightarrow> ui_state \<Rightarrow> js_exn + bool \<times> ui_state" where
  "checkStatus cl reply ui =
     (case reply of
        Reply_throws e \<Rightarrow> Inl e
      | Reply_http st js \<Rightarrow>
          if \<not> (200 \<le> st \<and> st \<le> 299) then
            Inl (JsError (''Error checking job status: '' @ string_of_nat st))
          else (case js of
              Inl e \<Rightarrow> Inl e
            | Inr sd \<Rightarrow>
                if sd_status sd = Some ''completed'' then
                  Inr (True, ui\<lparr>
                    generatedHtml := str_or (sd_html sd) (str_or (sd_result_html sd) []),
                    projectId := str_or (sd_projectId sd)
                                   (str_or (sd_result_projectId sd) (''job-'' @ c_jobId cl)),
                    loading := False,
                    isSubmitted := True\<rparr>)
                else if sd_status sd = Some ''failed'' then
                  Inr (True, ui\<lparr>
                    generatedHtml := str_or (sd_html sd) (errorHtml cl sd),
                    projectId := str_or (sd_projectId sd) (''error-'' @ c_jobId cl),
                    loading := False\<rparr>)
                else if str_or (sd_html sd) [] \<noteq> []
                        \<and> str_or (sd_html sd) [] \<noteq> c_generatedHtml cl then
                  Inr (False, ui\<lparr>generatedHtml := str_or (sd_html sd) []\<rparr>)
                else Inr (False, ui)))"

text \<open>
  The state of the \<^verbatim>\<open>while\<close> loop: the component state, the counter \<^verbatim>\<open>attempts\<close>, and
  two counters of its effects, the status requests sent and the milliseconds spent in
  \<^verbatim>\<open>setTimeout\<close>.
\<close>

record poll_run =
  run_ui :: ui_state
  attempts :: nat
  requests :: nat
  slept_ms :: nat

text \<open>
  \<^verbatim>\<open>while (attempts < maxAttempts)\<close>.  The request number \<open>k\<close> (from 0) is answered by
  \<open>replies k\<close>.  The result is the exception that leaves the loop, if any (the time-out
  is thrown after the loop), and the state reached.
\<close>

function poll_loop ::
  "poll_closure \<Rightarrow> (nat \<Rightarrow> poll_reply) \<Rightarrow> poll_run \<Rightarrow> js_exn option \<times> poll_run" where
  "poll_loop cl replies run =
     (if attempts run < maxAttempts then
        (case checkStatus cl (replies (requests run)) (run_ui run) of
           Inl e \<Rightarrow> (Some e, run\<lparr>requests := requests run + 1\<rparr>)
         | Inr (done, ui') \<Rightarrow>
             if done then (None, run\<lparr>run_ui := ui', requests := requests run + 1\<rparr>)
             else poll_loop cl replies
                    (run\<lparr>run_ui := ui', attempts := attempts run + 1,
                       requests := requests run + 1, slept_ms := slept_ms run + 2000\<rparr>))
      else (Some (JsError ''Job processing timed out after 2 minutes''), run))"
  by pat_completeness auto
termination
  by (relation "measure (\<lambda>(cl, replies, run). maxAttempts - attempts run)") auto

declare poll_loop.simps [simp del]

text \<open>\<^verbatim>\<open>pollJobStatus(jobId)\<close>: the loop, and the \<^verbatim>\<open>catch\<close> block around it.\<close>

definition pollJobStatus :: "poll_closure \<Rightarrow> (nat \<Rightarrow> poll_reply) \<Rightarrow> ui_state \<Rightarrow> poll_run" where
  "pollJobStatus cl replies ui0 =
     (case poll_loop cl replies \<lparr>run_ui = ui0, attempts = 0, requests = 0, slept_ms = 0\<rparr> of
        (None, run) \<Rightarrow> run
      | (Some e, run) \<Rightarrow>
          run\<lparr>run_ui := (run_ui run)\<lparr>
                 generatedHtml := timeoutHtml cl e,
                 projectId := ''timeout-'' @ string_of_nat (now_ms (c_clock cl)),
                 loading := False\<rparr>\<rparr>)"

text \<open>
  For stating what the loop does with a sequence of replies: the status data of a reply
  that \<^verbatim>\<open>checkStatus\<close> reads without an exception (a success status code and a body
  that parses); whether its \<^verbatim>\<open>status\<close> is \<^verbatim>\<open>completed\<close> or \<^verbatim>\<open>failed\<close>; and a reply that
  is read and is neither.
\<close>

definition reply_data :: "poll_reply \<Rightarrow> status_data option" where
  "reply_data r =
     (case r of
        Reply_throws e \<Rightarrow> None
      | Reply_http st js \<Rightarrow>
          if 200 \<le> st \<and> st \<le> 299 then (case js of Inl e \<Rightarrow> None | Inr sd \<Rightarrow> Some sd) else None)"

definition is_terminal :: "status_data \<Rightarrow> bool" where
  "is_terminal sd = (sd_status sd = Some ''completed'' \<or> sd_status sd = Some ''failed'')"

definition in_flight :: "poll_reply \<Rightarrow> bool" where
  "in_flight r = (case reply_data r of None \<Rightarrow> False | Some sd \<Rightarrow> \<not> is_terminal sd)"

text \<open>The state in which \<^verbatim>\<open>pollJobStatus\<close> enters the loop.\<close>

definition start_run :: "ui_state \<Rightarrow> poll_run" where
  "start_run ui0 = \<lparr>run_ui = ui0, attempts = 0, requests = 0, slept_ms = 0\<rparr>"

section \<open>Concrete inputs\<close>

text \<open>
  An environment, two clock readings, a stored job and request outcomes, for evaluating
  the functions above on concrete inputs.
\<close>

definition memo_body :: string where
  "memo_body = ''{\"html\":\"<h1>Memo</h1>\",\"projectId\":\"p1\"}''"

definition sample_env :: js_env where
  "sample_env = \<lparr>
     JSON_parse = (\<lambda>s. if s = ''{}'' then Some (JObj [])
                        else if s = memo_body
                        then Some (JObj [(''html'', JStr ''<h1>Memo</h1>''), (''projectId'', JStr ''p1'')])
                        else None),
     String_of = (\<lambda>v. ''[object Object]''),
     TypeError_msg = (\<lambda>k. ''Cannot read properties of null''),
     db_text = (\<lambda>v. None)\<rparr>"

definition sample_clock :: clock where
  "sample_clock = \<lparr>now_ms = 1793653200000, now_locale = ''11/2/2026, 9:00:00 PM'',
     now_iso = ''2026-11-02T21:00:00.000Z''\<rparr>"

definition later_clock :: clock where
  "later_clock = \<lparr>now_ms = 1793653202000, now_locale = ''11/2/2026, 9:00:02 PM'',
     now_iso = ''2026-11-02T21:00:02.000Z''\<rparr>"

definition sample_job :: DocumentJob where
  "sample_job = \<lparr>job_id = ''j1'', status = Pending, prompt = ''Write a memo'', html = None,
     project_id = None, error = None, result = None, created_at = 1000, updated_at = 1000\<rparr>"

definition sample_rows :: job_table where
  "sample_rows = Map.empty(''j1'' \<mapsto> sample_job)"

definition sample_data :: json where
  "sample_data = JObj [(''prompt'', JStr ''Write a memo'')]"

definition all_ok :: db_outcomes where
  "all_ok = \<lparr>mark_ok = True, complete_ok = True, reread_ok = True, fail_ok = True\<rparr>"

definition reread_fails :: db_outcomes where
  "reread_fails = \<lparr>mark_ok = True, complete_ok = True, reread_ok = False, fail_ok = True\<rparr>"

definition webhook_down :: "json \<Rightarrow> fetch_outcome" where
  "webhook_down d = Fetch_throws (JsError ''fetch failed'')"

definition webhook_500 :: "json \<Rightarrow> fetch_outcome" where
  "webhook_500 d = Fetch_response 500 (Inr ''Internal Server Error'')"

definition webhook_empty_object :: "json \<Rightarrow> fetch_outcome" where
  "webhook_empty_object d = Fetch_response 200 (Inr ''{}'')"

definition webhook_memo :: "json \<Rightarrow> fetch_outcome" where
  "webhook_memo d = Fetch_response 200 (Inr memo_body)"

definition sample_request :: request where
  "sample_request = \<lparr>query_jobId = None, req_json = Inr sample_data\<rparr>"

definition sample_closure :: poll_closure where
  "sample_closure = \<lparr>c_prompt = ''Write a memo'', c_generatedHtml = [], c_jobId = ''j1'',
     c_clock = later_clock\<rparr>"

definition sample_ui :: ui_state where
  "sample_ui = \<lparr>generatedHtml = [], projectId = [], loading = True, isSubmitted = False\<rparr>"

definition processing_data :: status_data where
  "processing_data = \<lparr>sd_status = Some ''processing'', sd_html = Some ''<p>Working</p>'',
     sd_error = None, sd_projectId = Some ''pending-j1'', sd_result_html = None,
     sd_result_projectId = None\<rparr>"

definition completed_data :: status_data where
  "completed_data = \<lparr>sd_status = Some ''completed'', sd_html = Some ''<h1>Memo</h1>'',
     sd_error = None, sd_projectId = Some ''p1'', sd_result_html = Some ''<h1>Memo</h1>'',
     sd_result_projectId = Some ''p1''\<rparr>"

definition replies_done_at_2 :: "nat \<Rightarrow> poll_reply" where
  "replies_done_at_2 k = Reply_http 200 (Inr (if k < 2 then processing_data else completed_data))"

definition replies_never_done :: "nat \<Rightarrow> poll_reply" where
  "replies_never_done k = Reply_http 200 (Inr processing_data)"

definition failed_data :: status_data where
  "failed_data = \<lparr>sd_status = Some ''failed'', sd_html = None,
     sd_error = Some ''Invalid response format'', sd_projectId = None, sd_result_html = None,
     sd_result_projectId = None\<rparr>"

definition replies_failed_at_1 :: "nat \<Rightarrow> poll_reply" where
  "replies_failed_at_1 k = Reply_http 200 (Inr (if k < 1 then processing_data else failed_data))"

definition null_request :: request where
  "null_request = \<lparr>query_jobId = None, req_json = Inr JNull\<rparr>"

text \<open>The member \<open>k\<close> of a response body.\<close>

definition body_field :: "http_response \<Rightarrow> string \<Rightarrow> json option" where
  "body_field r k = (case body r of JObj kvs \<Rightarrow> map_of kvs k | _ \<Rightarrow> None)"

section \<open>Properties of the job store\<close>

text \<open>
  Claim C8, amended.  \<^verbatim>\<open>updateDocumentJob\<close> merges the fields it is given into the row
  with this \<^verbatim>\<open>job_id\<close> and touches nothing else: every other row is as it was, and in
  the row itself \<^verbatim>\<open>job_id\<close>, \<^verbatim>\<open>created_at\<close> and \<^verbatim>\<open>updated_at\<close> keep their values, as
  does every field that is not among the updates.  When the write fails the result is
  \<^verbatim>\<open>false\<close> and the table is unchanged; no exception is among the results.  The code
  does not refresh \<^verbatim>\<open>updated_at\<close>: the type of \<^verbatim>\<open>updates\<close> excludes the column and the
  table definition gives it a default at insertion only.
\<close>

theorem updateDocumentJob_frame:
  "updateDocumentJob env db_ok jobId updates rows = (r, rows') \<Longrightarrow>
     (\<not> db_ok \<longrightarrow> \<not> r) \<and> (\<not> r \<longrightarrow> rows' = rows)
     \<and> (\<forall>k. k \<noteq> jobId \<longrightarrow> rows' k = rows k)
     \<and> (rows jobId = None \<longrightarrow> rows' = rows)
     \<and> (\<forall>job. rows jobId = Some job \<longrightarrow>
          (\<exists>job'. rows' jobId = Some job'
             \<and> job_id job' = job_id job \<and> created_at job' = created_at job
             \<and> updated_at job' = updated_at job
             \<and> (u_status updates = None \<longrightarrow> status job' = status job)
             \<and> (u_prompt updates = None \<longrightarrow> prompt job' = prompt job)
             \<and> (u_html updates = None \<longrightarrow> html job' = html job)
             \<and> (u_project_id updates = None \<longrightarrow> project_id job' = project_id job)
             \<and> (u_error updates = None \<longrightarrow> error job' = error job)
             \<and> (u_result updates = None \<longrightarrow> result job' = result job)
             \<and> (r \<longrightarrow> (\<forall>st. u_status updates = Some st \<longrightarrow> status job' = st)
                    \<and> (\<forall>p. u_prompt updates = Some p \<longrightarrow> prompt job' = p)
                    \<and> (\<forall>h. u_html updates = Some (JStr h) \<longrightarrow> html job' = Some h)
                    \<and> (\<forall>p. u_project_id updates = Some (JStr p) \<longrightarrow> project_id job' = Some p)
                    \<and> (\<forall>e. u_error updates = Some e \<longrightarrow> error job' = Some e)
                    \<and> (\<forall>v. u_result updates = Some v \<longrightarrow> v \<noteq> JNull \<longrightarrow> result job' = Some v))))"
proof -
  assume a: "updateDocumentJob env db_ok jobId updates rows = (r, rows')"
  have r: "r = fst (updateDocumentJob env db_ok jobId updates rows)"
    and s: "rows' = snd (updateDocumentJob env db_ok jobId updates rows)" using a by simp_all
  show ?thesis unfolding r s
    by (auto simp: updateDocumentJob_def merge_opt_def merge_nullable_def merge_json_def split: option.splits prod.splits json.splits)
qed

theorem updateDocumentJob_frame_witness:
  "updateDocumentJob sample_env True ''j1'' (no_updates\<lparr>u_status := Some Processing\<rparr>) sample_rows
     = (True, sample_rows(''j1'' \<mapsto> sample_job\<lparr>status := Processing\<rparr>))
   \<and> (\<exists>job'. (sample_rows(''j1'' \<mapsto> sample_job\<lparr>status := Processing\<rparr>)) ''j1'' = Some job'
        \<and> job_id job' = ''j1'' \<and> created_at job' = 1000 \<and> prompt job' = ''Write a memo''
        \<and> status job' = Processing)"
proof -
  have e: "updateDocumentJob sample_env True ''j1'' (no_updates\<lparr>u_status := Some Processing\<rparr>) sample_rows
     = (True, sample_rows(''j1'' \<mapsto> sample_job\<lparr>status := Processing\<rparr>))"
    by (simp add: updateDocumentJob_def sample_rows_def sample_job_def no_updates_def merge_opt_def merge_nullable_def merge_json_def)
  have s: "sample_rows ''j1'' = Some sample_job" by (simp add: sample_rows_def)
  from updateDocumentJob_frame [OF e] s show ?thesis using e
    by (simp add: sample_job_def no_updates_def)
qed

text \<open>
  Claim C8 as stated fails: a write that moves the job from \<^verbatim>\<open>pending\<close> to
  \<^verbatim>\<open>processing\<close> succeeds and leaves \<^verbatim>\<open>updated_at\<close> at the time of creation.
\<close>

theorem updateDocumentJob_updated_at_counterexample:
  "fst (updateDocumentJob sample_env True ''j1'' (no_updates\<lparr>u_status := Some Processing\<rparr>) sample_rows)
   \<and> map_option status (sample_rows ''j1'') = Some Pending
   \<and> map_option status (snd (updateDocumentJob sample_env True ''j1''
        (no_updates\<lparr>u_status := Some Processing\<rparr>) sample_rows) ''j1'') = Some Processing
   \<and> map_option updated_at (snd (updateDocumentJob sample_env True ''j1''
        (no_updates\<lparr>u_status := Some Processing\<rparr>) sample_rows) ''j1'')
       = map_option created_at (sample_rows ''j1'')"
  by (simp add: updateDocumentJob_def sample_rows_def sample_job_def no_updates_def merge_opt_def merge_nullable_def merge_json_def)

text \<open>
  Claim C9, amended.  \<^verbatim>\<open>getDocumentJob\<close> returns absence, never an exception, when no
  row has the id and also when the query fails; the status endpoint answers absence with
  status code 404 and \<^verbatim>\<open>status: 'not_found'\<close>, and every job it finds with status code
  200 and another \<^verbatim>\<open>status\<close>.
\<close>

theorem getDocumentJob_absence:
  "(getDocumentJob db_ok jobId rows = None \<longleftrightarrow> (\<not> db_ok \<or> rows jobId = None))
   \<and> (getDocumentJob db_ok jobId rows = None \<longrightarrow>
        checkJobStatus db_ok clk jobId rows =
          \<lparr>code = 404,
           body = JObj [(''error'', JStr ''Job not found''), (''status'', JStr ''not_found'')]\<rparr>)
   \<and> (getDocumentJob db_ok jobId rows \<noteq> None \<longrightarrow>
        code (checkJobStatus db_ok clk jobId rows) = 200
        \<and> body_field (checkJobStatus db_ok clk jobId rows) ''status'' \<noteq> Some (JStr ''not_found''))"
proof (cases "getDocumentJob db_ok jobId rows")
  case None
  then show ?thesis
    by (auto simp: getDocumentJob_def checkJobStatus_def split: if_splits)
next
  case (Some job)
  then show ?thesis
    by (cases "status job")
       (auto simp: getDocumentJob_def checkJobStatus_def body_field_def split: if_splits)
qed

theorem getDocumentJob_absence_witness:
  "getDocumentJob True ''j2'' sample_rows = None
   \<and> code (checkJobStatus True sample_clock ''j2'' sample_rows) = 404
   \<and> getDocumentJob True ''j1'' sample_rows \<noteq> None
   \<and> code (checkJobStatus True sample_clock ''j1'' sample_rows) = 200"
proof -
  have a: "getDocumentJob True ''j2'' sample_rows = None"
    by (simp add: getDocumentJob_def sample_rows_def)
  have b: "getDocumentJob True ''j1'' sample_rows \<noteq> None"
    by (simp add: getDocumentJob_def sample_rows_def)
  from getDocumentJob_absence [of True "''j2''" sample_rows sample_clock]
    getDocumentJob_absence [of True "''j1''" sample_rows sample_clock] a b
  show ?thesis by simp
qed

text \<open>
  Claim C9 as stated fails: the row exists, the query fails, and the store helper returns
  absence all the same; the status endpoint then answers \<^verbatim>\<open>not_found\<close> with 404, as for
  a job that does not exist.
\<close>

theorem getDocumentJob_storage_error_counterexample:
  "sample_rows ''j1'' = Some sample_job
   \<and> getDocumentJob False ''j1'' sample_rows = None
   \<and> checkJobStatus False sample_clock ''j1'' sample_rows
        = checkJobStatus True sample_clock ''j2'' sample_rows"
  by (simp add: getDocumentJob_def checkJobStatus_def sample_rows_def)

section \<open>Properties of the job processor\<close>

lemma mark_row:
  "rows jobId = Some job \<Longrightarrow>
   \<exists>job'. processJob_mark env dbo jobId rows jobId = Some job'
     \<and> job_id job' = job_id job \<and> prompt job' = prompt job \<and> html job' = html job
     \<and> project_id job' = project_id job \<and> error job' = error job \<and> result job' = result job
     \<and> created_at job' = created_at job \<and> updated_at job' = updated_at job
     \<and> (status job' = status job \<or> status job' = Processing)"
  by (auto simp: processJob_mark_def updateDocumentJob_def no_updates_def merge_opt_def merge_nullable_def merge_json_def split: option.splits prod.splits)

lemma s500: "string_of_nat 500 = ''500''" by code_simp

lemma try_500: "processJob_try env webhook_500 dbo jobId data rows = Inl (JsError ''Server responded with status: 500'')"
  by (simp add: processJob_try_def webhook_500_def s500)

lemma sublist_skip: "sublist xs ys \<Longrightarrow> sublist xs (zs @ ys)"
  by (metis append_assoc sublist_def)

lemma sublist_here: "sublist xs (xs @ ys)"
  by (rule sublist_append_rightI)

lemma sublist_within: "sublist t ln \<Longrightarrow> sublist ln doc \<Longrightarrow> sublist t doc"
  by (metis sublist_order.order_trans)

lemma sublist_mid3: "sublist (a @ m @ b) (pre @ a @ m @ b @ post)"
  unfolding sublist_def by (metis append_assoc)

lemma sublist_here3: "sublist (a @ m @ b) (a @ m @ b @ r)"
  using sublist_mid3 [of a m b "[]" r] by simp

lemma fallback_embeds_prompt: "sublist p (createFallbackHtml clk p m)"
  unfolding createFallbackHtml_def
  by (rule sublist_here | rule sublist_skip)+

lemma fallback_embeds_error: "sublist m (createFallbackHtml clk p m)"
proof (cases "m = []")
  case True
  then show ?thesis by simp
next
  case False
  then show ?thesis
    unfolding createFallbackHtml_def
    apply (simp only: if_True not_False_eq_True append_assoc)
    apply (rule sublist_here | rule sublist_skip)+
    done
qed

lemma fallback_nonempty: "createFallbackHtml clk p m \<noteq> []"
  by (simp add: createFallbackHtml_def nl_def)


lemma loading_heading: "sublist ''<h1>Processing Your Request</h1>'' (createLoadingHtml clk p)"
proof -
  have "sublist ''      <h1>Processing Your Request</h1>'' (createLoadingHtml clk p)"
    unfolding createLoadingHtml_def by (rule sublist_here | rule sublist_skip)+
  moreover have "sublist ''<h1>Processing Your Request</h1>'' ''      <h1>Processing Your Request</h1>''"
    by code_simp
  ultimately show ?thesis by (rule sublist_within [rotated])
qed

lemma loading_prompt: "sublist (''<p><em>\"'' @ p @ ''\"</em></p>'') (createLoadingHtml clk p)"
proof -
  have "sublist (''        <p><em>\"'' @ p @ ''\"</em></p>'') (createLoadingHtml clk p)"
    unfolding createLoadingHtml_def by (rule sublist_here3 | rule sublist_skip)+
  moreover have "sublist (''<p><em>\"'' @ p @ ''\"</em></p>'') (''        <p><em>\"'' @ p @ ''\"</em></p>'')"
    using sublist_mid3 [of "''<p><em>\"''" p "''\"</em></p>''" "''        ''" "[]"] by simp
  ultimately show ?thesis by (rule sublist_within [rotated])
qed

lemma loading_wait:
  "sublist ''<p>This may take up to 2 minutes to complete...</p>'' (createLoadingHtml clk p)"
proof -
  have "sublist ''        <p>This may take up to 2 minutes to complete...</p>'' (createLoadingHtml clk p)"
    unfolding createLoadingHtml_def by (rule sublist_here | rule sublist_skip)+
  moreover have "sublist ''<p>This may take up to 2 minutes to complete...</p>''
      ''        <p>This may take up to 2 minutes to complete...</p>''"
    by code_simp
  ultimately show ?thesis by (rule sublist_within [rotated])
qed

lemma loading_started:
  "sublist (''<p>Started at: '' @ now_locale clk @ ''</p>'') (createLoadingHtml clk p)"
proof -
  have "sublist (''      <p>Started at: '' @ now_locale clk @ ''</p>'') (createLoadingHtml clk p)"
    unfolding createLoadingHtml_def by (rule sublist_here3 | rule sublist_skip)+
  moreover have "sublist (''<p>Started at: '' @ now_locale clk @ ''</p>'')
      (''      <p>Started at: '' @ now_locale clk @ ''</p>'')"
    using sublist_mid3 [of "''<p>Started at: ''" "now_locale clk" "''</p>''" "''      ''" "[]"] by simp
  ultimately show ?thesis by (rule sublist_within [rotated])
qed

lemma markup_after_nbsp: "isHtmlContent ([CHR 0xA0] @ ''<html'')"
  by (simp add: isHtmlContent_def trim_def is_space_def)

lemma catch_row:
  assumes "rows jobId = Some job" and "reread_ok dbo" and "fail_ok dbo"
  shows "processJob_catch env clk dbo jobId e rows =
     rows(jobId \<mapsto> job\<lparr>status := Failed,
        html := Some (createFallbackHtml clk (prompt job) (error_message e)),
        project_id := Some (''error-'' @ jobId),
        error := Some (error_message e),
        result := Some (JObj [(''html'', JStr (createFallbackHtml clk (prompt job) (error_message e))),
                              (''projectId'', JStr (''error-'' @ jobId))])\<rparr>)"
  using assms
  by (simp add: processJob_catch_def getDocumentJob_def updateDocumentJob_def no_updates_def
      merge_opt_def merge_nullable_def merge_json_def Let_def)

text \<open>
  Claim C3, amended.  Every exception of the \<^verbatim>\<open>try\<close> block is caught.  When the job is
  in the table, the read in the \<^verbatim>\<open>catch\<close> block succeeds and the write after it succeeds,
  the job is left \<^verbatim>\<open>failed\<close>, with the error message in \<^verbatim>\<open>error\<close> and with a fallback
  document in \<^verbatim>\<open>html\<close> that contains the original prompt and the error message.
\<close>

theorem processJob_failure_recorded:
  assumes "processJob_try env webhook dbo jobId data (processJob_mark env dbo jobId rows) = Inl e"
    and "rows jobId = Some job" and "reread_ok dbo" and "fail_ok dbo"
  shows "\<exists>job'. processJob env clk webhook dbo jobId data rows jobId = Some job'
      \<and> status job' = Failed
      \<and> error job' = Some (error_message e)
      \<and> html job' = Some (createFallbackHtml clk (prompt job) (error_message e))
      \<and> sublist (prompt job) (createFallbackHtml clk (prompt job) (error_message e))
      \<and> sublist (error_message e) (createFallbackHtml clk (prompt job) (error_message e))
      \<and> prompt job' = prompt job \<and> job_id job' = job_id job"
proof -
  obtain job1 where j1: "processJob_mark env dbo jobId rows jobId = Some job1"
    and p1: "prompt job1 = prompt job" and i1: "job_id job1 = job_id job"
    using mark_row [of rows jobId job env dbo] assms(2) by blast
  have "processJob env clk webhook dbo jobId data rows =
      processJob_catch env clk dbo jobId e (processJob_mark env dbo jobId rows)"
    using assms(1) by (simp add: processJob_def)
  then show ?thesis
    using catch_row [where rows = "processJob_mark env dbo jobId rows" and jobId = jobId
        and job = job1 and dbo = dbo and env = env and clk = clk and e = e] j1 assms(3) assms(4) p1 i1
    by (simp add: fallback_embeds_prompt fallback_embeds_error)
qed

theorem processJob_failure_recorded_witness:
  "\<exists>job'. processJob sample_env sample_clock webhook_500 all_ok ''j1'' sample_data sample_rows ''j1'' = Some job'
      \<and> status job' = Failed
      \<and> error job' = Some ''Server responded with status: 500''
      \<and> sublist ''Write a memo'' (the (html job'))
      \<and> sublist ''Server responded with status: 500'' (the (html job'))"
proof -
  have a: "processJob_try sample_env webhook_500 all_ok ''j1'' sample_data
      (processJob_mark sample_env all_ok ''j1'' sample_rows) = Inl (JsError ''Server responded with status: 500'')"
    by (rule try_500)
  have b: "sample_rows ''j1'' = Some sample_job" by (simp add: sample_rows_def)
  have c: "reread_ok all_ok" "fail_ok all_ok" by (simp_all add: all_ok_def)
  from processJob_failure_recorded [OF a b c, of sample_clock]
  show ?thesis by (auto simp: error_message_def sample_job_def)
qed

text \<open>
  Claim C3 as stated fails: the generation service answers 500, the exception is caught,
  and the read of the job in the \<^verbatim>\<open>catch\<close> block fails; the write under \<^verbatim>\<open>if (job)\<close>
  is skipped and the job stays \<^verbatim>\<open>processing\<close> with no error and no fallback document.
\<close>

theorem processJob_failure_not_recorded_counterexample:
  "processJob_try sample_env webhook_500 reread_fails ''j1'' sample_data
      (processJob_mark sample_env reread_fails ''j1'' sample_rows)
     = Inl (JsError ''Server responded with status: 500'')
   \<and> map_option status
        (processJob sample_env sample_clock webhook_500 reread_fails ''j1'' sample_data sample_rows ''j1'')
       = Some Processing
   \<and> map_option error
        (processJob sample_env sample_clock webhook_500 reread_fails ''j1'' sample_data sample_rows ''j1'')
       = Some None
   \<and> map_option html
        (processJob sample_env sample_clock webhook_500 reread_fails ''j1'' sample_data sample_rows ''j1'')
       = Some None"
  by (simp add: processJob_def try_500 processJob_catch_def processJob_mark_def getDocumentJob_def
      updateDocumentJob_def sample_rows_def sample_job_def
      no_updates_def reread_fails_def merge_opt_def merge_nullable_def merge_json_def Let_def)

text \<open>
  Claim C10.  When an exception reaches the \<^verbatim>\<open>catch\<close> block and the read of the job
  there returns absence (no row, or a query that fails), \<^verbatim>\<open>processJob\<close> writes nothing
  more: the table it leaves is the table as it was after the \<^verbatim>\<open>processing\<close> write, so
  the job can stay \<^verbatim>\<open>processing\<close> with no error and no fallback document.
\<close>

theorem processJob_reread_absent:
  assumes "processJob_try env webhook dbo jobId data (processJob_mark env dbo jobId rows) = Inl e"
    and "getDocumentJob (reread_ok dbo) jobId (processJob_mark env dbo jobId rows) = None"
  shows "processJob env clk webhook dbo jobId data rows = processJob_mark env dbo jobId rows"
  using assms by (simp add: processJob_def processJob_catch_def)

theorem processJob_reread_absent_witness:
  "processJob sample_env sample_clock webhook_down reread_fails ''j1'' sample_data sample_rows
     = processJob_mark sample_env reread_fails ''j1'' sample_rows
   \<and> processJob sample_env sample_clock webhook_down reread_fails ''j1'' sample_data sample_rows ''j1''
     = Some (sample_job\<lparr>status := Processing\<rparr>)"
proof -
  have a: "processJob_try sample_env webhook_down reread_fails ''j1'' sample_data
      (processJob_mark sample_env reread_fails ''j1'' sample_rows) = Inl (JsError ''fetch failed'')"
    by (simp add: processJob_try_def webhook_down_def)
  have b: "getDocumentJob (reread_ok reread_fails) ''j1''
      (processJob_mark sample_env reread_fails ''j1'' sample_rows) = None"
    by (simp add: getDocumentJob_def reread_fails_def)
  have m: "processJob_mark sample_env reread_fails ''j1'' sample_rows ''j1''
      = Some (sample_job\<lparr>status := Processing\<rparr>)"
    by (simp add: processJob_mark_def updateDocumentJob_def sample_rows_def sample_job_def
      no_updates_def reread_fails_def merge_opt_def merge_nullable_def merge_json_def)
  from processJob_reread_absent [OF a b, of sample_clock] m show ?thesis by simp
qed

lemma create_result:
  "createDocumentJob env db_ok fresh_id now p rows = (Some job, rows') \<Longrightarrow>
     job_id job = fresh_id \<and> status job = Pending \<and> html job = None \<and> project_id job = None
     \<and> error job = None \<and> result job = None \<and> created_at job = now \<and> updated_at job = now
     \<and> rows fresh_id = None \<and> rows' = rows(fresh_id \<mapsto> job) \<and> db_ok"
  by (auto simp: createDocumentJob_def Let_def split: if_splits option.splits)

lemma update_keeps_or_sets:
  assumes "rows jobId = Some job"
  shows "snd (updateDocumentJob env ok jobId u rows) jobId = Some job
     \<or> (\<exists>h p. text_column env (u_html u) (html job) = Some h
          \<and> text_column env (u_project_id u) (project_id job) = Some p
          \<and> snd (updateDocumentJob env ok jobId u rows) jobId = Some (job\<lparr>
               status := merge_opt (u_status u) (status job),
               prompt := merge_opt (u_prompt u) (prompt job),
               html := h, project_id := p,
               error := merge_nullable (u_error u) (error job),
               result := merge_json (u_result u) (result job)\<rparr>))"
  using assms by (auto simp: updateDocumentJob_def split: option.splits)

lemma try_Inr_form:
  "processJob_try env webhook dbo jobId data rows = Inr rows2 \<Longrightarrow>
   \<exists>u. rows2 = snd (updateDocumentJob env (complete_ok dbo) jobId u rows)
      \<and> u_status u = Some Completed \<and> u_error u = None \<and> u_prompt u = None"
  by (auto simp: processJob_try_def processJob_interpret_def processJob_json_def no_updates_def
      split: fetch_outcome.splits if_splits sum.splits option.splits)

lemma try_Inr_row:
  assumes "processJob_try env webhook dbo jobId data rows = Inr rows2" and "rows jobId = Some job"
  shows "\<exists>job2. rows2 jobId = Some job2 \<and> (job2 = job \<or> status job2 = Completed)
     \<and> error job2 = error job \<and> prompt job2 = prompt job"
proof -
  obtain u where u: "rows2 = snd (updateDocumentJob env (complete_ok dbo) jobId u rows)"
    "u_status u = Some Completed" "u_error u = None" "u_prompt u = None"
    using try_Inr_form [OF assms(1)] by blast
  show ?thesis
    using update_keeps_or_sets [where rows = rows and jobId = jobId and job = job and env = env
        and ok = "complete_ok dbo" and u = u] assms(2) u
    by (auto simp: merge_opt_def merge_nullable_def)
qed

lemma catch_row_cases:
  assumes "rows jobId = Some job"
  shows "processJob_catch env clk dbo jobId e rows jobId = Some job
    \<or> (\<exists>job'. processJob_catch env clk dbo jobId e rows jobId = Some job' \<and> status job' = Failed
         \<and> html job' = Some (createFallbackHtml clk (prompt job) (error_message e))
         \<and> error job' = Some (error_message e))"
  using assms
  by (auto simp: processJob_catch_def getDocumentJob_def updateDocumentJob_def no_updates_def
      merge_opt_def merge_nullable_def merge_json_def Let_def)

lemma processJob_row_cases:
  assumes "rows jobId = Some job"
  shows "\<exists>job'. processJob env clk webhook dbo jobId data rows jobId = Some job'
     \<and> prompt job' = prompt job
     \<and> ((status job' = status job \<and> html job' = html job \<and> error job' = error job)
        \<or> (status job' = Processing \<and> html job' = html job \<and> error job' = error job)
        \<or> (status job' = Completed \<and> error job' = error job)
        \<or> (status job' = Failed \<and> (\<exists>h. html job' = Some h \<and> h \<noteq> [])
             \<and> (\<exists>m. error job' = Some m)))"
proof -
  let ?rows1 = "processJob_mark env dbo jobId rows"
  obtain job1 where j1: "?rows1 jobId = Some job1" and p1: "prompt job1 = prompt job"
    and h1: "html job1 = html job" and e1: "error job1 = error job"
    and s1: "status job1 = status job \<or> status job1 = Processing"
    using mark_row [of rows jobId job env dbo] assms by blast
  show ?thesis
  proof (cases "processJob_try env webhook dbo jobId data ?rows1")
    case (Inr rows2)
    then have "processJob env clk webhook dbo jobId data rows = rows2"
      by (simp add: processJob_def)
    with try_Inr_row [OF Inr j1] p1 h1 e1 s1 show ?thesis by auto
  next
    case (Inl e)
    then have "processJob env clk webhook dbo jobId data rows = processJob_catch env clk dbo jobId e ?rows1"
      by (simp add: processJob_def)
    with catch_row_cases [where rows = ?rows1 and jobId = jobId and job = job1 and env = env
        and clk = clk and dbo = dbo and e = e] j1 p1 h1 e1 s1 fallback_nonempty
    show ?thesis
      by (auto simp: processJob_catch_def getDocumentJob_def updateDocumentJob_def no_updates_def
      merge_opt_def merge_nullable_def merge_json_def Let_def)
  qed
qed






text \<open>
  Claim C2, amended.  A job without an error that the processor leaves \<^verbatim>\<open>completed\<close>
  has no error.  When the generation service answers with a success status and the write
  succeeds: a body that parses as a JSON object makes the job \<^verbatim>\<open>completed\<close> whether or
  not it has an \<^verbatim>\<open>html\<close> member (with \<^verbatim>\<open>html\<close> and \<^verbatim>\<open>projectId\<close> each missing or a
  string), the stored \<^verbatim>\<open>html\<close> being the member when there is one and what it was
  before when there is none; a body that does not parse as JSON and looks like markup
  makes the job \<^verbatim>\<open>completed\<close> with the body, which is not empty, as \<^verbatim>\<open>html\<close>.
\<close>

theorem processJob_completed:
  assumes "rows jobId = Some job"
  shows "(error job = None \<and> processJob env clk webhook dbo jobId data rows jobId = Some job'
            \<and> status job' = Completed \<longrightarrow> error job' = None)
    \<and> (webhook data = Fetch_response st (Inr rtext) \<and> 200 \<le> st \<and> st \<le> 299 \<and> complete_ok dbo \<longrightarrow>
         (\<forall>kvs. JSON_parse env rtext = Some (JObj kvs)
               \<and> (map_of kvs ''html'' = None \<or> (\<exists>h. map_of kvs ''html'' = Some (JStr h)))
               \<and> (map_of kvs ''projectId'' = None \<or> (\<exists>p. map_of kvs ''projectId'' = Some (JStr p))) \<longrightarrow>
            (\<exists>job2. processJob env clk webhook dbo jobId data rows jobId = Some job2
                \<and> status job2 = Completed
                \<and> (map_of kvs ''html'' = None \<longrightarrow> html job2 = html job)
                \<and> (\<forall>h. map_of kvs ''html'' = Some (JStr h) \<longrightarrow> html job2 = Some h)))
         \<and> (JSON_parse env rtext = None \<and> isHtmlContent rtext \<longrightarrow>
            (\<exists>job2. processJob env clk webhook dbo jobId data rows jobId = Some job2
                \<and> status job2 = Completed \<and> html job2 = Some rtext \<and> rtext \<noteq> [])))"
proof -
  let ?rows1 = "processJob_mark env dbo jobId rows"
  obtain job1 where j1: "?rows1 jobId = Some job1" and h1: "html job1 = html job"
    using mark_row [of rows jobId job env dbo] assms by blast
  have c1: "error job = None \<and> processJob env clk webhook dbo jobId data rows jobId = Some job'
            \<and> status job' = Completed \<longrightarrow> error job' = None"
    using processJob_row_cases [of rows jobId job env clk webhook dbo data] assms by auto
  have c2: "\<exists>job2. processJob env clk webhook dbo jobId data rows jobId = Some job2
                \<and> status job2 = Completed
                \<and> (map_of kvs ''html'' = None \<longrightarrow> html job2 = html job)
                \<and> (\<forall>h. map_of kvs ''html'' = Some (JStr h) \<longrightarrow> html job2 = Some h)"
    if w: "webhook data = Fetch_response st (Inr rtext)" "200 \<le> st" "st \<le> 299" "complete_ok dbo"
      and p: "JSON_parse env rtext = Some (JObj kvs)"
      and q: "map_of kvs ''projectId'' = None \<or> (\<exists>p. map_of kvs ''projectId'' = Some (JStr p))"
      and q': "map_of kvs ''html'' = None \<or> (\<exists>h. map_of kvs ''html'' = Some (JStr h))"
    for kvs
  proof -
    have "processJob env clk webhook dbo jobId data rows =
      snd (updateDocumentJob env True jobId
        (no_updates\<lparr>u_status := Some Completed, u_html := map_of kvs ''html'',
           u_project_id := map_of kvs ''projectId'', u_result := Some (JObj kvs)\<rparr>) ?rows1)"
      using w p by (simp add: processJob_def processJob_try_def processJob_interpret_def processJob_json_def)
    then show ?thesis using j1 h1 q q'
      by (auto simp: updateDocumentJob_def no_updates_def merge_opt_def split: option.splits)
  qed
  have c3: "\<exists>job2. processJob env clk webhook dbo jobId data rows jobId = Some job2
                \<and> status job2 = Completed \<and> html job2 = Some rtext \<and> rtext \<noteq> []"
    if w: "webhook data = Fetch_response st (Inr rtext)" "200 \<le> st" "st \<le> 299" "complete_ok dbo"
      and p: "JSON_parse env rtext = None" and q: "isHtmlContent rtext"
  proof -
    have "processJob env clk webhook dbo jobId data rows =
      snd (updateDocumentJob env True jobId
        (no_updates\<lparr>u_status := Some Completed, u_html := Some (JStr rtext),
                 u_project_id := Some (JStr (''html-'' @ jobId)),
                 u_result := Some (JObj [(''html'', JStr rtext),
                                         (''projectId'', JStr (''html-'' @ jobId))])\<rparr>) ?rows1)"
      using w p q by (simp add: processJob_def processJob_try_def processJob_interpret_def processJob_json_def)
    moreover have "rtext \<noteq> []" using q by (auto simp: isHtmlContent_def trim_def)
    ultimately show ?thesis using j1
      by (auto simp: updateDocumentJob_def no_updates_def merge_opt_def)
  qed
  from c1 c2 c3 show ?thesis by blast
qed

theorem processJob_completed_witness:
  "\<exists>job2. processJob sample_env sample_clock webhook_memo all_ok ''j1'' sample_data sample_rows ''j1'' = Some job2
      \<and> status job2 = Completed \<and> html job2 = Some ''<h1>Memo</h1>''"
proof -
  have r: "sample_rows ''j1'' = Some sample_job" by (simp add: sample_rows_def)
  have w: "webhook_memo sample_data = Fetch_response 200 (Inr memo_body)"
    "complete_ok all_ok"
    by (simp_all add: webhook_memo_def all_ok_def)
  have p: "JSON_parse sample_env memo_body
     = Some (JObj [(''html'', JStr ''<h1>Memo</h1>''), (''projectId'', JStr ''p1'')])"
    by (simp add: sample_env_def memo_body_def)
  from processJob_completed [where rows = sample_rows and jobId = "''j1''" and job = sample_job
      and webhook = webhook_memo and data = sample_data and st = "200" and env = sample_env
      and rtext = memo_body and dbo = all_ok
      and clk = sample_clock] r w p
  show ?thesis by simp
qed

text \<open>
  Claim C2 as stated fails: the generation service answers \<^verbatim>\<open>{}\<close>, which parses as
  JSON and has no \<^verbatim>\<open>html\<close> member; the job is marked \<^verbatim>\<open>completed\<close> and its \<^verbatim>\<open>html\<close>
  stays null.
\<close>

theorem processJob_completed_without_html_counterexample:
  "webhook_empty_object sample_data = Fetch_response 200 (Inr ''{}'')
   \<and> JSON_parse sample_env ''{}'' = Some (JObj [])
   \<and> map_option status
        (processJob sample_env sample_clock webhook_empty_object all_ok ''j1'' sample_data sample_rows ''j1'')
       = Some Completed
   \<and> map_option html
        (processJob sample_env sample_clock webhook_empty_object all_ok ''j1'' sample_data sample_rows ''j1'')
       = Some None"
  by (simp add: processJob_def processJob_try_def processJob_interpret_def processJob_json_def
      webhook_empty_object_def sample_env_def processJob_mark_def
      updateDocumentJob_def sample_rows_def sample_job_def
      no_updates_def all_ok_def merge_opt_def merge_nullable_def merge_json_def Let_def)

section \<open>Properties of the status endpoint\<close>

text \<open>
  Claim C4, amended.  \<^verbatim>\<open>checkJobStatus\<close> only reads the table.  Two calls on the same
  table with the same outcome of the lookup give the same response, whatever the clock
  shows at each, when the lookup fails, the job does not exist, the job is \<^verbatim>\<open>completed\<close>,
  or the stored \<^verbatim>\<open>html\<close> is a non-empty string.
\<close>

theorem checkJobStatus_repeatable:
  assumes "\<not> db_ok \<or> rows jobId = None
     \<or> (\<exists>job. rows jobId = Some job \<and> (status job = Completed \<or> (\<exists>h. html job = Some h \<and> h \<noteq> [])))"
  shows "checkJobStatus db_ok clk1 jobId rows = checkJobStatus db_ok clk2 jobId rows"
proof (cases "getDocumentJob db_ok jobId rows")
  case None
  then show ?thesis by (simp add: checkJobStatus_def)
next
  case (Some job)
  then have "rows jobId = Some job" "db_ok" by (auto simp: getDocumentJob_def split: if_splits)
  with assms have "status job = Completed \<or> (\<exists>h. html job = Some h \<and> h \<noteq> [])" by auto
  then show ?thesis using Some
    by (cases "status job") (auto simp: checkJobStatus_def str_or_def)
qed

theorem checkJobStatus_repeatable_witness:
  "checkJobStatus True sample_clock ''j1'' (sample_rows(''j1'' \<mapsto> sample_job\<lparr>html := Some ''<p>Working</p>''\<rparr>))
   = checkJobStatus True later_clock ''j1'' (sample_rows(''j1'' \<mapsto> sample_job\<lparr>html := Some ''<p>Working</p>''\<rparr>))"
  by (rule checkJobStatus_repeatable) simp

text \<open>
  Claim C4 as stated fails: for a \<^verbatim>\<open>pending\<close> job with no stored \<^verbatim>\<open>html\<close> the endpoint
  synthesizes the placeholder, which holds the time of the call, so two calls on the same
  table two seconds apart give different responses.
\<close>

theorem checkJobStatus_clock_counterexample:
  "checkJobStatus True sample_clock ''j1'' sample_rows \<noteq> checkJobStatus True later_clock ''j1'' sample_rows"
  by (simp add: checkJobStatus_def getDocumentJob_def sample_rows_def sample_job_def str_or_def
      createLoadingHtml_def sample_clock_def later_clock_def)

section \<open>Properties of the submission endpoint\<close>

lemma POST_is_new:
  "query_jobId req = None \<or> query_jobId req = Some [] \<Longrightarrow>
   POST env clk db_ok fresh_id db_now req rows = POST_new env clk db_ok fresh_id db_now req rows"
  by (auto simp: POST_def)

text \<open>
  Claim C6, amended.  For a submission (no \<^verbatim>\<open>jobId\<close> parameter) whose body parses as
  JSON and is not \<^verbatim>\<open>null\<close>, the read of \<^verbatim>\<open>data.prompt\<close> does not throw, and when the
  store creates the job, \<^verbatim>\<open>POST\<close> leaves the new \<^verbatim>\<open>pending\<close> job in the table, has
  started \<^verbatim>\<open>processJob\<close> on the job id and the payload without awaiting it, and answers
  with the job id, status \<^verbatim>\<open>pending\<close>, the placeholder document and the project id
  \<^verbatim>\<open>job-\<close> followed by the job id; the answer depends on nothing the generation service
  does.  The placeholder document has the heading \<^verbatim>\<open>Processing Your Request\<close>, the
  prompt in quotes, the notice that this may take up to 2 minutes, and the time it was
  made.  A payload without a \<^verbatim>\<open>prompt\<close> member is not refused: the job is created with
  the prompt \<^verbatim>\<open>No prompt provided\<close>, which the placeholder document then shows.
\<close>

theorem POST_submission:
  assumes "query_jobId req = None \<or> query_jobId req = Some []"
    and "req_json req = Inr data" and "data \<noteq> JNull"
  shows "(\<exists>pf. js_prop env data ''prompt'' = Inr pf)
     \<and> (\<forall>pf job rows'.
            js_prop env data ''prompt'' = Inr pf
            \<and> createDocumentJob env db_ok fresh_id db_now (js_or pf (JStr ''No prompt provided'')) rows
                = (Some job, rows') \<longrightarrow>
            POST env clk db_ok fresh_id db_now req rows =
              \<lparr>response = \<lparr>code = 200, body = JObj [
                  (''jobId'', JStr fresh_id),
                  (''status'', JStr ''pending''),
                  (''message'', JStr ''Your request is being processed''),
                  (''html'', JStr (createLoadingHtml clk
                      (template_str env (js_or pf (JStr ''No prompt provided''))))),
                  (''projectId'', JStr (''job-'' @ fresh_id))]\<rparr>,
               rows_after = rows(fresh_id \<mapsto> job),
               spawned = Some (fresh_id, data)\<rparr>
            \<and> job_id job = fresh_id \<and> status job = Pending \<and> rows fresh_id = None
            \<and> sublist ''<h1>Processing Your Request</h1>''
                 (createLoadingHtml clk (template_str env (js_or pf (JStr ''No prompt provided''))))
            \<and> sublist (''<p><em>\"'' @ template_str env (js_or pf (JStr ''No prompt provided''))
                          @ ''\"</em></p>'')
                 (createLoadingHtml clk (template_str env (js_or pf (JStr ''No prompt provided''))))
            \<and> sublist ''<p>This may take up to 2 minutes to complete...</p>''
                 (createLoadingHtml clk (template_str env (js_or pf (JStr ''No prompt provided''))))
            \<and> sublist (''<p>Started at: '' @ now_locale clk @ ''</p>'')
                 (createLoadingHtml clk (template_str env (js_or pf (JStr ''No prompt provided'')))))
     \<and> (\<forall>kvs. data = JObj kvs \<and> map_of kvs ''prompt'' = None \<and> db_ok \<and> rows fresh_id = None \<longrightarrow>
            (\<exists>job. rows_after (POST env clk db_ok fresh_id db_now req rows) fresh_id = Some job
               \<and> prompt job = ''No prompt provided'' \<and> status job = Pending
               \<and> spawned (POST env clk db_ok fresh_id db_now req rows) = Some (fresh_id, data)
               \<and> code (response (POST env clk db_ok fresh_id db_now req rows)) = 200
               \<and> body_field (response (POST env clk db_ok fresh_id db_now req rows)) ''status''
                   = Some (JStr ''pending'')
               \<and> body_field (response (POST env clk db_ok fresh_id db_now req rows)) ''jobId''
                   = Some (JStr fresh_id)
               \<and> body_field (response (POST env clk db_ok fresh_id db_now req rows)) ''html''
                   = Some (JStr (createLoadingHtml clk ''No prompt provided''))
               \<and> sublist ''<p><em>\"No prompt provided\"</em></p>''
                    (createLoadingHtml clk ''No prompt provided'')))"
proof -
  have n: "POST env clk db_ok fresh_id db_now req rows = POST_new env clk db_ok fresh_id db_now req rows"
    using assms(1) by (rule POST_is_new)
  have c0: "\<exists>pf. js_prop env data ''prompt'' = Inr pf"
    using assms(3) by (cases data) simp_all
  have c1: "POST env clk db_ok fresh_id db_now req rows =
              \<lparr>response = \<lparr>code = 200, body = JObj [
                  (''jobId'', JStr fresh_id),
                  (''status'', JStr ''pending''),
                  (''message'', JStr ''Your request is being processed''),
                  (''html'', JStr (createLoadingHtml clk
                      (template_str env (js_or pf (JStr ''No prompt provided''))))),
                  (''projectId'', JStr (''job-'' @ fresh_id))]\<rparr>,
               rows_after = rows(fresh_id \<mapsto> job),
               spawned = Some (fresh_id, data)\<rparr>
            \<and> job_id job = fresh_id \<and> status job = Pending \<and> rows fresh_id = None
            \<and> sublist ''<h1>Processing Your Request</h1>''
                 (createLoadingHtml clk (template_str env (js_or pf (JStr ''No prompt provided''))))
            \<and> sublist (''<p><em>\"'' @ template_str env (js_or pf (JStr ''No prompt provided''))
                          @ ''\"</em></p>'')
                 (createLoadingHtml clk (template_str env (js_or pf (JStr ''No prompt provided''))))
            \<and> sublist ''<p>This may take up to 2 minutes to complete...</p>''
                 (createLoadingHtml clk (template_str env (js_or pf (JStr ''No prompt provided''))))
            \<and> sublist (''<p>Started at: '' @ now_locale clk @ ''</p>'')
                 (createLoadingHtml clk (template_str env (js_or pf (JStr ''No prompt provided''))))"
    if a: "js_prop env data ''prompt'' = Inr pf"
      and b: "createDocumentJob env db_ok fresh_id db_now (js_or pf (JStr ''No prompt provided'')) rows
                = (Some job, rows')"
    for pf job rows'
  proof -
    have "POST env clk db_ok fresh_id db_now req rows =
              \<lparr>response = \<lparr>code = 200, body = JObj [
                  (''jobId'', JStr fresh_id),
                  (''status'', JStr ''pending''),
                  (''message'', JStr ''Your request is being processed''),
                  (''html'', JStr (createLoadingHtml clk
                      (template_str env (js_or pf (JStr ''No prompt provided''))))),
                  (''projectId'', JStr (''job-'' @ fresh_id))]\<rparr>,
               rows_after = rows(fresh_id \<mapsto> job),
               spawned = Some (fresh_id, data)\<rparr>
            \<and> job_id job = fresh_id \<and> status job = Pending \<and> rows fresh_id = None"
      using create_result [OF b] a b assms(2) n
      by (simp add: POST_new_def POST_submit_def Let_def)
    then show ?thesis
      using loading_heading loading_prompt loading_wait loading_started by blast
  qed
  have c2: "\<exists>job. rows_after (POST env clk db_ok fresh_id db_now req rows) fresh_id = Some job
               \<and> prompt job = ''No prompt provided'' \<and> status job = Pending
               \<and> spawned (POST env clk db_ok fresh_id db_now req rows) = Some (fresh_id, data)
               \<and> code (response (POST env clk db_ok fresh_id db_now req rows)) = 200
               \<and> body_field (response (POST env clk db_ok fresh_id db_now req rows)) ''status''
                   = Some (JStr ''pending'')
               \<and> body_field (response (POST env clk db_ok fresh_id db_now req rows)) ''jobId''
                   = Some (JStr fresh_id)
               \<and> body_field (response (POST env clk db_ok fresh_id db_now req rows)) ''html''
                   = Some (JStr (createLoadingHtml clk ''No prompt provided''))
               \<and> sublist ''<p><em>\"No prompt provided\"</em></p>''
                    (createLoadingHtml clk ''No prompt provided'')"
    if a: "data = JObj kvs" "map_of kvs ''prompt'' = None" "db_ok" "rows fresh_id = None" for kvs
    using a assms(2) n loading_prompt [of "''No prompt provided''" clk]
    by (simp add: POST_new_def POST_submit_def createDocumentJob_def js_or_def template_str_def
        body_field_def Let_def)
  from c0 c1 c2 show ?thesis by blast
qed

theorem POST_submission_witness:
  "POST sample_env sample_clock True ''j1'' 1000 sample_request Map.empty =
     \<lparr>response = \<lparr>code = 200, body = JObj [
         (''jobId'', JStr ''j1''),
         (''status'', JStr ''pending''),
         (''message'', JStr ''Your request is being processed''),
         (''html'', JStr (createLoadingHtml sample_clock ''Write a memo'')),
         (''projectId'', JStr ''job-j1'')]\<rparr>,
      rows_after = sample_rows,
      spawned = Some (''j1'', sample_data)\<rparr>
   \<and> sublist ''<h1>Processing Your Request</h1>'' (createLoadingHtml sample_clock ''Write a memo'')
   \<and> sublist ''<p><em>\"Write a memo\"</em></p>'' (createLoadingHtml sample_clock ''Write a memo'')
   \<and> sublist ''<p>Started at: 11/2/2026, 9:00:00 PM</p>''
        (createLoadingHtml sample_clock ''Write a memo'')"
proof -
  have q: "query_jobId sample_request = None \<or> query_jobId sample_request = Some []"
    and d: "req_json sample_request = Inr sample_data" and z: "sample_data \<noteq> JNull"
    by (simp_all add: sample_request_def sample_data_def)
  have p: "js_prop sample_env sample_data ''prompt'' = Inr (Some (JStr ''Write a memo''))"
    by (simp add: sample_data_def)
  have c: "createDocumentJob sample_env True ''j1'' 1000
      (js_or (Some (JStr ''Write a memo'')) (JStr ''No prompt provided'')) Map.empty
       = (Some sample_job, sample_rows)"
    by (simp add: createDocumentJob_def js_or_def sample_job_def sample_rows_def Let_def)
  have "js_prop sample_env sample_data ''prompt'' = Inr (Some (JStr ''Write a memo''))
     \<and> createDocumentJob sample_env True ''j1'' 1000
      (js_or (Some (JStr ''Write a memo'')) (JStr ''No prompt provided'')) Map.empty
       = (Some sample_job, sample_rows)"
    using p c by simp
  with POST_submission [OF q d z, of sample_env True "''j1''" 1000 Map.empty sample_clock,
      THEN conjunct2, THEN conjunct1, THEN spec, THEN spec, THEN spec, THEN mp,
      of "Some (JStr ''Write a memo'')" sample_job sample_rows]
  show ?thesis by (simp add: js_or_def template_str_def sample_rows_def sample_clock_def)
qed

lemma now_digits: "string_of_nat 1793653200000 = ''1793653200000''"
  by (simp add: string_of_nat.simps)

text \<open>
  Claim C6 as stated fails: a submission whose body is the JSON value \<^verbatim>\<open>null\<close> has no
  \<^verbatim>\<open>prompt\<close> member, and the read of \<^verbatim>\<open>data.prompt\<close> throws; the \<^verbatim>\<open>catch\<close> block
  answers with the fallback document, no job is created and no processor is started,
  although the store is reachable.
\<close>

theorem POST_null_body_counterexample:
  "query_jobId null_request = None
   \<and> req_json null_request = Inr JNull
   \<and> POST sample_env sample_clock True ''j1'' 1000 null_request Map.empty =
     \<lparr>response = \<lparr>code = 200, body = JObj [
         (''error'', JStr ''Cannot read properties of null''),
         (''html'', JStr (createFallbackHtml sample_clock ''Error processing your request'' [])),
         (''projectId'', JStr ''error-1793653200000'')]\<rparr>,
      rows_after = Map.empty, spawned = None\<rparr>"
  by (simp add: POST_def POST_new_def POST_submit_def null_request_def sample_env_def
      error_message_def now_digits sample_clock_def)

lemma not_sublist_by_char: "c \<in> set xs \<Longrightarrow> c \<notin> set ys \<Longrightarrow> \<not> sublist xs ys"
  using set_mono_sublist by fastforce

text \<open>
  Claim C7, the code at the failing input.  The store is unreachable when the prompt
  \<^verbatim>\<open>Write a memo\<close> is submitted: the response has status code 200, the error text in
  \<^verbatim>\<open>error\<close> and an identifier made from the clock, but its \<^verbatim>\<open>html\<close> is
  \<^verbatim>\<open>createFallbackHtml("Error processing your request")\<close>, which contains neither the
  prompt nor the error text.
\<close>

theorem POST_create_fails_html:
  "POST sample_env sample_clock False ''j1'' 1000 sample_request Map.empty =
     \<lparr>response = \<lparr>code = 200, body = JObj [
         (''error'', JStr ''Failed to create job record''),
         (''html'', JStr (createFallbackHtml sample_clock ''Error processing your request'' [])),
         (''projectId'', JStr ''error-1793653200000'')]\<rparr>,
      rows_after = Map.empty, spawned = None\<rparr>
   \<and> \<not> sublist ''Write a memo'' (createFallbackHtml sample_clock ''Error processing your request'' [])
   \<and> \<not> sublist ''Failed to create job record''
         (createFallbackHtml sample_clock ''Error processing your request'' [])"
proof -
  have a: "POST sample_env sample_clock False ''j1'' 1000 sample_request Map.empty =
     \<lparr>response = \<lparr>code = 200, body = JObj [
         (''error'', JStr ''Failed to create job record''),
         (''html'', JStr (createFallbackHtml sample_clock ''Error processing your request'' [])),
         (''projectId'', JStr ''error-1793653200000'')]\<rparr>,
      rows_after = Map.empty, spawned = None\<rparr>"
    by (simp add: POST_def POST_new_def POST_submit_def sample_request_def sample_data_def
        createDocumentJob_def js_or_def error_message_def now_digits sample_clock_def)
  have b: "\<not> sublist ''Write a memo''
      (createFallbackHtml sample_clock ''Error processing your request'' [])"
    by (rule not_sublist_by_char [where c = "CHR ''W''"])
       (simp_all add: createFallbackHtml_def sample_clock_def nl_def)
  have c: "\<not> sublist ''Failed to create job record''
         (createFallbackHtml sample_clock ''Error processing your request'' [])"
    by (rule not_sublist_by_char [where c = "CHR ''F''"])
       (simp_all add: createFallbackHtml_def sample_clock_def nl_def)
  from a b c show ?thesis by simp
qed

section \<open>Properties of the client poll loop\<close>

lemma check_in_flight:
  "in_flight r \<Longrightarrow> \<exists>ui'. checkStatus cl r ui = Inr (False, ui')"
  by (auto simp: in_flight_def reply_data_def is_terminal_def checkStatus_def
      split: poll_reply.splits sum.splits if_splits option.splits)

lemma check_completed:
  "reply_data r = Some sd \<Longrightarrow> sd_status sd = Some ''completed'' \<Longrightarrow>
   \<exists>ui'. checkStatus cl r ui = Inr (True, ui')
      \<and> generatedHtml ui' = str_or (sd_html sd) (str_or (sd_result_html sd) [])
      \<and> \<not> loading ui' \<and> isSubmitted ui'"
  by (auto simp: reply_data_def checkStatus_def split: poll_reply.splits sum.splits if_splits)

lemma check_failed:
  "reply_data r = Some sd \<Longrightarrow> sd_status sd = Some ''failed'' \<Longrightarrow>
   \<exists>ui'. checkStatus cl r ui = Inr (True, ui')
      \<and> generatedHtml ui' = str_or (sd_html sd) (errorHtml cl sd)
      \<and> \<not> loading ui'"
  by (auto simp: reply_data_def checkStatus_def split: poll_reply.splits sum.splits if_splits)

lemma check_done_not_loading:
  "checkStatus cl r ui = Inr (True, ui') \<Longrightarrow> \<not> loading ui'"
  by (auto simp: checkStatus_def split: poll_reply.splits sum.splits if_splits)

lemma poll_loop_bounds:
  "attempts run \<le> maxAttempts \<Longrightarrow> poll_loop cl replies run = (e, run') \<Longrightarrow>
     attempts run \<le> attempts run' \<and> attempts run' \<le> maxAttempts
     \<and> requests run' + attempts run \<le> requests run + maxAttempts
     \<and> slept_ms run' = slept_ms run + 2000 * (attempts run' - attempts run)
     \<and> (e = None \<longrightarrow> \<not> loading (run_ui run'))"
proof (induction cl replies run arbitrary: e run' rule: poll_loop.induct)
  case (1 cl replies run)
  show ?case
  proof (cases "attempts run < maxAttempts")
    case False
    with "1.prems" show ?thesis by (auto simp: poll_loop.simps)
  next
    case lt: True
    show ?thesis
    proof (cases "checkStatus cl (replies (requests run)) (run_ui run)")
      case (Inl x)
      with lt "1.prems" show ?thesis by (auto simp: poll_loop.simps)
    next
      case (Inr p)
      obtain d ui' where p: "p = (d, ui')" by (cases p)
      show ?thesis
      proof (cases d)
        case True
        with lt Inr p "1.prems" check_done_not_loading [of cl "replies (requests run)" "run_ui run" ui']
        show ?thesis by (auto simp: poll_loop.simps)
      next
        case False
        let ?next = "run\<lparr>run_ui := ui', attempts := attempts run + 1,
                       requests := requests run + 1, slept_ms := slept_ms run + 2000\<rparr>"
        have r: "poll_loop cl replies ?next = (e, run')"
          using lt Inr p False "1.prems"(2) by (simp add: poll_loop.simps [of cl replies run])
        have "attempts ?next \<le> maxAttempts" using lt by simp
        from "1.IH" [OF lt Inr p [symmetric] False this r]
        show ?thesis by auto
      qed
    qed
  qed
qed

lemma poll_loop_skip:
  "attempts run + n \<le> maxAttempts \<Longrightarrow> \<forall>i<n. in_flight (replies (requests run + i)) \<Longrightarrow>
   \<exists>ui'. poll_loop cl replies run =
     poll_loop cl replies \<lparr>run_ui = ui', attempts = attempts run + n,
        requests = requests run + n, slept_ms = slept_ms run + 2000 * n\<rparr>"
proof (induction n arbitrary: run)
  case 0
  show ?case by (rule exI [of _ "run_ui run"]) (cases run, simp)
next
  case (Suc n)
  have lt: "attempts run < maxAttempts" using Suc.prems(1) by simp
  have "in_flight (replies (requests run))" using Suc.prems(2) by force
  then obtain ui1 where c: "checkStatus cl (replies (requests run)) (run_ui run) = Inr (False, ui1)"
    using check_in_flight by blast
  let ?next = "run\<lparr>run_ui := ui1, attempts := attempts run + 1,
                       requests := requests run + 1, slept_ms := slept_ms run + 2000\<rparr>"
  have step: "poll_loop cl replies run = poll_loop cl replies ?next"
    using lt c by (simp add: poll_loop.simps [of cl replies run])
  have a: "attempts ?next + n \<le> maxAttempts" using Suc.prems(1) by simp
  have b: "\<forall>i<n. in_flight (replies (requests ?next + i))"
  proof (intro allI impI)
    fix i assume "i < n"
    then have "Suc i < Suc n" by simp
    with Suc.prems(2) have "in_flight (replies (requests run + Suc i))" by blast
    then show "in_flight (replies (requests ?next + i))" by simp
  qed
  from Suc.IH [OF a b] obtain ui' where
    "poll_loop cl replies ?next = poll_loop cl replies \<lparr>run_ui = ui', attempts = attempts ?next + n,
        requests = requests ?next + n, slept_ms = slept_ms ?next + 2000 * n\<rparr>" by blast
  with step show ?case by (intro exI [of _ ui']) (simp add: add.assoc)
qed

lemma pollJobStatus_alt:
  "pollJobStatus cl replies ui0 =
     (case poll_loop cl replies (start_run ui0) of
        (None, run) \<Rightarrow> run
      | (Some e, run) \<Rightarrow>
          run\<lparr>run_ui := (run_ui run)\<lparr>
                 generatedHtml := timeoutHtml cl e,
                 projectId := ''timeout-'' @ string_of_nat (now_ms (c_clock cl)),
                 loading := False\<rparr>\<rparr>)"
  by (simp add: pollJobStatus_def start_run_def)

lemma poll_counts:
  "requests (pollJobStatus cl replies ui0) \<le> 60
   \<and> attempts (pollJobStatus cl replies ui0) \<le> 60
   \<and> slept_ms (pollJobStatus cl replies ui0) = 2000 * attempts (pollJobStatus cl replies ui0)
   \<and> \<not> loading (run_ui (pollJobStatus cl replies ui0))"
proof -
  obtain e run' where r: "poll_loop cl replies (start_run ui0) = (e, run')"
    by (cases "poll_loop cl replies (start_run ui0)")
  have "attempts (start_run ui0) \<le> maxAttempts" by (simp add: start_run_def)
  from poll_loop_bounds [OF this r] r show ?thesis
    by (cases e) (auto simp: pollJobStatus_alt start_run_def maxAttempts_def)
qed

lemma poll_reaches:
  assumes "k \<le> 60" and "\<forall>i<k. in_flight (replies i)"
  shows "\<exists>ui'. poll_loop cl replies (start_run ui0) =
     poll_loop cl replies \<lparr>run_ui = ui', attempts = k, requests = k, slept_ms = 2000 * k\<rparr>"
  using poll_loop_skip [of "start_run ui0" k replies cl] assms
  by (simp add: start_run_def maxAttempts_def)

lemma poll_terminal:
  assumes "k < 60" and "\<forall>i<k. in_flight (replies i)"
    and "reply_data (replies k) = Some sd" and "is_terminal sd"
  shows "requests (pollJobStatus cl replies ui0) = k + 1
     \<and> attempts (pollJobStatus cl replies ui0) = k
     \<and> generatedHtml (run_ui (pollJobStatus cl replies ui0)) =
         (if sd_status sd = Some ''completed''
          then str_or (sd_html sd) (str_or (sd_result_html sd) [])
          else str_or (sd_html sd) (errorHtml cl sd))"
proof -
  obtain ui' where s: "poll_loop cl replies (start_run ui0) =
     poll_loop cl replies \<lparr>run_ui = ui', attempts = k, requests = k, slept_ms = 2000 * k\<rparr>"
    using poll_reaches [of k replies cl ui0] assms(1,2) by auto
  let ?run = "\<lparr>run_ui = ui', attempts = k, requests = k, slept_ms = 2000 * k\<rparr>"
  show ?thesis
  proof (cases "sd_status sd = Some ''completed''")
    case True
    then obtain ui2 where c: "checkStatus cl (replies k) ui' = Inr (True, ui2)"
      and g: "generatedHtml ui2 = str_or (sd_html sd) (str_or (sd_result_html sd) [])"
      using check_completed [OF assms(3), of cl ui'] by blast
    have "poll_loop cl replies ?run = (None, ?run\<lparr>run_ui := ui2, requests := k + 1\<rparr>)"
      using assms(1) c by (simp add: poll_loop.simps [of cl replies ?run] maxAttempts_def)
    with s g True show ?thesis by (simp add: pollJobStatus_alt)
  next
    case False
    then have f: "sd_status sd = Some ''failed''" using assms(4) by (simp add: is_terminal_def)
    then obtain ui2 where c: "checkStatus cl (replies k) ui' = Inr (True, ui2)"
      and g: "generatedHtml ui2 = str_or (sd_html sd) (errorHtml cl sd)"
      using check_failed [OF assms(3), of cl ui'] by blast
    have "poll_loop cl replies ?run = (None, ?run\<lparr>run_ui := ui2, requests := k + 1\<rparr>)"
      using assms(1) c by (simp add: poll_loop.simps [of cl replies ?run] maxAttempts_def)
    with s g False show ?thesis by (simp add: pollJobStatus_alt)
  qed
qed

lemma poll_exhausted:
  assumes "\<forall>i<60. in_flight (replies i)"
  shows "requests (pollJobStatus cl replies ui0) = 60
     \<and> attempts (pollJobStatus cl replies ui0) = 60
     \<and> generatedHtml (run_ui (pollJobStatus cl replies ui0)) =
         timeoutHtml cl (JsError ''Job processing timed out after 2 minutes'')"
proof -
  obtain ui' where s: "poll_loop cl replies (start_run ui0) =
     poll_loop cl replies \<lparr>run_ui = ui', attempts = 60, requests = 60, slept_ms = 120000\<rparr>"
    using poll_reaches [of 60 replies cl ui0] assms by auto
  let ?run = "\<lparr>run_ui = ui', attempts = 60, requests = 60, slept_ms = 120000\<rparr>"
  have "poll_loop cl replies ?run = (Some (JsError ''Job processing timed out after 2 minutes''), ?run)"
    by (simp add: poll_loop.simps [of cl replies ?run] maxAttempts_def)
  with s show ?thesis by (simp add: pollJobStatus_alt)
qed

lemma timeoutHtml_heading: "sublist ''<h1>Processing Timeout</h1>'' (timeoutHtml cl e)"
proof -
  have "sublist ''          <h1>Processing Timeout</h1>'' (timeoutHtml cl e)"
    unfolding timeoutHtml_def by (rule sublist_here | rule sublist_skip)+
  moreover have "sublist ''<h1>Processing Timeout</h1>'' ''          <h1>Processing Timeout</h1>''"
    by code_simp
  ultimately show ?thesis by (rule sublist_within [rotated])
qed

lemma timeoutHtml_error: "sublist (''<p>Error: '' @ error_message e @ ''</p>'') (timeoutHtml cl e)"
proof -
  have "sublist (''          <p>Error: '' @ error_message e @ ''</p>'') (timeoutHtml cl e)"
    unfolding timeoutHtml_def by (rule sublist_here3 | rule sublist_skip)+
  moreover have "sublist (''<p>Error: '' @ error_message e @ ''</p>'')
      (''          <p>Error: '' @ error_message e @ ''</p>'')"
    using sublist_mid3 [of "''<p>Error: ''" "error_message e" "''</p>''" "''          ''" "[]"] by simp
  ultimately show ?thesis by (rule sublist_within [rotated])
qed

lemma timeoutHtml_prompt:
  "sublist (''<p>Your prompt was: \"'' @ c_prompt cl @ ''\"</p>'') (timeoutHtml cl e)"
proof -
  have "sublist (''          <p>Your prompt was: \"'' @ c_prompt cl @ ''\"</p>'') (timeoutHtml cl e)"
    unfolding timeoutHtml_def by (rule sublist_here3 | rule sublist_skip)+
  moreover have "sublist (''<p>Your prompt was: \"'' @ c_prompt cl @ ''\"</p>'')
      (''          <p>Your prompt was: \"'' @ c_prompt cl @ ''\"</p>'')"
    using sublist_mid3 [of "''<p>Your prompt was: \"''" "c_prompt cl" "''\"</p>''" "''          ''" "[]"]
    by simp
  ultimately show ?thesis by (rule sublist_within [rotated])
qed

lemma errorHtml_heading: "sublist ''<h1>Error Generating Document</h1>'' (errorHtml cl sd)"
proof -
  have "sublist ''              <h1>Error Generating Document</h1>'' (errorHtml cl sd)"
    unfolding errorHtml_def by (rule sublist_here | rule sublist_skip)+
  moreover have "sublist ''<h1>Error Generating Document</h1>''
      ''              <h1>Error Generating Document</h1>''"
    by code_simp
  ultimately show ?thesis by (rule sublist_within [rotated])
qed

lemma errorHtml_error:
  "sublist (''<p>We encountered an error: '' @ str_or (sd_error sd) ''Unknown error'' @ ''</p>'')
     (errorHtml cl sd)"
proof -
  have "sublist (''              <p>We encountered an error: '' @ str_or (sd_error sd) ''Unknown error'' @ ''</p>'')
      (errorHtml cl sd)"
    unfolding errorHtml_def by (rule sublist_here3 | rule sublist_skip)+
  moreover have "sublist (''<p>We encountered an error: '' @ str_or (sd_error sd) ''Unknown error'' @ ''</p>'')
      (''              <p>We encountered an error: '' @ str_or (sd_error sd) ''Unknown error'' @ ''</p>'')"
    using sublist_mid3 [of "''<p>We encountered an error: ''" "str_or (sd_error sd) ''Unknown error''"
        "''</p>''" "''              ''" "[]"] by simp
  ultimately show ?thesis by (rule sublist_within [rotated])
qed

lemma errorHtml_prompt:
  "sublist (''<p>Your prompt was: \"'' @ c_prompt cl @ ''\"</p>'') (errorHtml cl sd)"
proof -
  have "sublist (''              <p>Your prompt was: \"'' @ c_prompt cl @ ''\"</p>'') (errorHtml cl sd)"
    unfolding errorHtml_def by (rule sublist_here3 | rule sublist_skip)+
  moreover have "sublist (''<p>Your prompt was: \"'' @ c_prompt cl @ ''\"</p>'')
      (''              <p>Your prompt was: \"'' @ c_prompt cl @ ''\"</p>'')"
    using sublist_mid3 [of "''<p>Your prompt was: \"''" "c_prompt cl" "''\"</p>''" "''              ''" "[]"]
    by simp
  ultimately show ?thesis by (rule sublist_within [rotated])
qed

lemma check_done_terminal:
  "checkStatus cl r ui = Inr (True, ui') \<Longrightarrow> \<exists>sd. reply_data r = Some sd \<and> is_terminal sd"
  by (auto simp: checkStatus_def reply_data_def is_terminal_def
      split: poll_reply.splits sum.splits if_splits)

lemma poll_loop_none:
  "poll_loop cl replies run = (None, run') \<Longrightarrow>
     \<exists>sd. 0 < requests run' \<and> reply_data (replies (requests run' - 1)) = Some sd \<and> is_terminal sd"
proof (induction cl replies run arbitrary: run' rule: poll_loop.induct)
  case (1 cl replies run)
  show ?case
  proof (cases "attempts run < maxAttempts")
    case False
    with "1.prems" show ?thesis by (auto simp: poll_loop.simps)
  next
    case lt: True
    show ?thesis
    proof (cases "checkStatus cl (replies (requests run)) (run_ui run)")
      case (Inl x)
      with lt "1.prems" show ?thesis by (auto simp: poll_loop.simps)
    next
      case (Inr p)
      obtain d ui' where p: "p = (d, ui')" by (cases p)
      show ?thesis
      proof (cases d)
        case True
        with lt Inr p "1.prems"
          check_done_terminal [of cl "replies (requests run)" "run_ui run" ui']
        show ?thesis by (auto simp: poll_loop.simps)
      next
        case False
        let ?next = "run\<lparr>run_ui := ui', attempts := attempts run + 1,
                       requests := requests run + 1, slept_ms := slept_ms run + 2000\<rparr>"
        have r: "poll_loop cl replies ?next = (None, run')"
          using lt Inr p False "1.prems" by (simp add: poll_loop.simps [of cl replies run])
        from "1.IH" [OF lt Inr p [symmetric] False r]
        show ?thesis .
      qed
    qed
  qed
qed

lemma poll_ends:
  "(\<exists>sd. 0 < requests (pollJobStatus cl replies ui0)
        \<and> reply_data (replies (requests (pollJobStatus cl replies ui0) - 1)) = Some sd
        \<and> is_terminal sd)
   \<or> (\<exists>e. generatedHtml (run_ui (pollJobStatus cl replies ui0)) = timeoutHtml cl e)"
proof -
  obtain e run' where r: "poll_loop cl replies (start_run ui0) = (e, run')"
    by (cases "poll_loop cl replies (start_run ui0)")
  show ?thesis
  proof (cases e)
    case None
    with r poll_loop_none [of cl replies "start_run ui0" run'] show ?thesis
      by (simp add: pollJobStatus_alt)
  next
    case (Some x)
    with r show ?thesis by (auto simp: pollJobStatus_alt)
  qed
qed

text \<open>
  Claim C5.  \<^verbatim>\<open>pollJobStatus\<close> returns for every sequence of replies (the loop is a
  total function: \<^verbatim>\<open>attempts\<close> grows towards 60).  It sends at most 60 status requests,
  sleeps 2000 ms after each attempt that did not end it, and leaves \<^verbatim>\<open>loading\<close> false.
  When the replies before request \<open>k\<close> are in flight and reply \<open>k\<close> is \<^verbatim>\<open>completed\<close> or
  \<^verbatim>\<open>failed\<close>, request \<open>k\<close> is the last one, and the content shown is that of the reply;
  for a \<^verbatim>\<open>failed\<close> reply without \<^verbatim>\<open>html\<close> it is the error document of the client, with
  the heading \<^verbatim>\<open>Error Generating Document\<close>, the error of the reply and the prompt.
  When all 60 replies are in flight, the loop ends after 60 requests and the client shows
  its time-out document, with the heading \<^verbatim>\<open>Processing Timeout\<close>, the error
  \<^verbatim>\<open>Job processing timed out after 2 minutes\<close> and the prompt.  Whatever the replies,
  either the last request was answered \<^verbatim>\<open>completed\<close> or \<^verbatim>\<open>failed\<close>, or the client shows
  the time-out document.
\<close>

theorem pollJobStatus_terminates:
  "requests (pollJobStatus cl replies ui0) \<le> 60
   \<and> attempts (pollJobStatus cl replies ui0) \<le> 60
   \<and> slept_ms (pollJobStatus cl replies ui0) = 2000 * attempts (pollJobStatus cl replies ui0)
   \<and> \<not> loading (run_ui (pollJobStatus cl replies ui0))
   \<and> (\<forall>k sd. k < 60 \<and> (\<forall>i<k. in_flight (replies i))
          \<and> reply_data (replies k) = Some sd \<and> is_terminal sd \<longrightarrow>
        requests (pollJobStatus cl replies ui0) = k + 1
        \<and> attempts (pollJobStatus cl replies ui0) = k
        \<and> generatedHtml (run_ui (pollJobStatus cl replies ui0)) =
            (if sd_status sd = Some ''completed''
             then str_or (sd_html sd) (str_or (sd_result_html sd) [])
             else str_or (sd_html sd) (errorHtml cl sd))
        \<and> (sd_status sd = Some ''failed'' \<and> str_or (sd_html sd) [] = [] \<longrightarrow>
             sublist ''<h1>Error Generating Document</h1>''
               (generatedHtml (run_ui (pollJobStatus cl replies ui0)))
             \<and> sublist (''<p>We encountered an error: '' @ str_or (sd_error sd) ''Unknown error'' @ ''</p>'')
                 (generatedHtml (run_ui (pollJobStatus cl replies ui0)))
             \<and> sublist (''<p>Your prompt was: \"'' @ c_prompt cl @ ''\"</p>'')
                 (generatedHtml (run_ui (pollJobStatus cl replies ui0)))))
   \<and> ((\<forall>i<60. in_flight (replies i)) \<longrightarrow>
        requests (pollJobStatus cl replies ui0) = 60
        \<and> attempts (pollJobStatus cl replies ui0) = 60
        \<and> generatedHtml (run_ui (pollJobStatus cl replies ui0)) =
            timeoutHtml cl (JsError ''Job processing timed out after 2 minutes'')
        \<and> sublist ''<h1>Processing Timeout</h1>''
            (generatedHtml (run_ui (pollJobStatus cl replies ui0)))
        \<and> sublist ''<p>Error: Job processing timed out after 2 minutes</p>''
            (generatedHtml (run_ui (pollJobStatus cl replies ui0)))
        \<and> sublist (''<p>Your prompt was: \"'' @ c_prompt cl @ ''\"</p>'')
            (generatedHtml (run_ui (pollJobStatus cl replies ui0))))
   \<and> ((\<exists>sd. 0 < requests (pollJobStatus cl replies ui0)
          \<and> reply_data (replies (requests (pollJobStatus cl replies ui0) - 1)) = Some sd
          \<and> is_terminal sd)
       \<or> sublist ''<h1>Processing Timeout</h1>''
            (generatedHtml (run_ui (pollJobStatus cl replies ui0)))
          \<and> sublist (''<p>Your prompt was: \"'' @ c_prompt cl @ ''\"</p>'')
            (generatedHtml (run_ui (pollJobStatus cl replies ui0))))"
proof -
  let ?G = "generatedHtml (run_ui (pollJobStatus cl replies ui0))"
  have c14: "requests (pollJobStatus cl replies ui0) \<le> 60
   \<and> attempts (pollJobStatus cl replies ui0) \<le> 60
   \<and> slept_ms (pollJobStatus cl replies ui0) = 2000 * attempts (pollJobStatus cl replies ui0)
   \<and> \<not> loading (run_ui (pollJobStatus cl replies ui0))"
    by (rule poll_counts)
  have c5: "requests (pollJobStatus cl replies ui0) = k + 1
        \<and> attempts (pollJobStatus cl replies ui0) = k
        \<and> ?G = (if sd_status sd = Some ''completed''
             then str_or (sd_html sd) (str_or (sd_result_html sd) [])
             else str_or (sd_html sd) (errorHtml cl sd))
        \<and> (sd_status sd = Some ''failed'' \<and> str_or (sd_html sd) [] = [] \<longrightarrow>
             sublist ''<h1>Error Generating Document</h1>'' ?G
             \<and> sublist (''<p>We encountered an error: '' @ str_or (sd_error sd) ''Unknown error'' @ ''</p>'') ?G
             \<and> sublist (''<p>Your prompt was: \"'' @ c_prompt cl @ ''\"</p>'') ?G)"
    if h: "k < 60 \<and> (\<forall>i<k. in_flight (replies i))
          \<and> reply_data (replies k) = Some sd \<and> is_terminal sd" for k sd
  proof -
    note t = poll_terminal [of k replies sd cl ui0]
    have g: "?G = (if sd_status sd = Some ''completed''
             then str_or (sd_html sd) (str_or (sd_result_html sd) [])
             else str_or (sd_html sd) (errorHtml cl sd))"
      using t h by blast
    have "?G = errorHtml cl sd" if "sd_status sd = Some ''failed''" "str_or (sd_html sd) [] = []"
      using g that by (auto simp: str_or_def split: option.splits if_splits)
    then have "sd_status sd = Some ''failed'' \<and> str_or (sd_html sd) [] = [] \<longrightarrow>
             sublist ''<h1>Error Generating Document</h1>'' ?G
             \<and> sublist (''<p>We encountered an error: '' @ str_or (sd_error sd) ''Unknown error'' @ ''</p>'') ?G
             \<and> sublist (''<p>Your prompt was: \"'' @ c_prompt cl @ ''\"</p>'') ?G"
      using errorHtml_heading [of cl sd] errorHtml_error [of sd cl] errorHtml_prompt [of cl sd]
      by simp
    with t h show ?thesis by blast
  qed
  have c6: "requests (pollJobStatus cl replies ui0) = 60
        \<and> attempts (pollJobStatus cl replies ui0) = 60
        \<and> ?G = timeoutHtml cl (JsError ''Job processing timed out after 2 minutes'')
        \<and> sublist ''<h1>Processing Timeout</h1>'' ?G
        \<and> sublist ''<p>Error: Job processing timed out after 2 minutes</p>'' ?G
        \<and> sublist (''<p>Your prompt was: \"'' @ c_prompt cl @ ''\"</p>'') ?G"
    if h: "\<forall>i<60. in_flight (replies i)"
    using poll_exhausted [OF h, of cl ui0]
      timeoutHtml_heading [of cl "JsError ''Job processing timed out after 2 minutes''"]
      timeoutHtml_error [of "JsError ''Job processing timed out after 2 minutes''" cl]
      timeoutHtml_prompt [of cl "JsError ''Job processing timed out after 2 minutes''"]
    by (simp add: error_message_def)
  have c7: "(\<exists>sd. 0 < requests (pollJobStatus cl replies ui0)
          \<and> reply_data (replies (requests (pollJobStatus cl replies ui0) - 1)) = Some sd
          \<and> is_terminal sd)
       \<or> sublist ''<h1>Processing Timeout</h1>'' ?G
          \<and> sublist (''<p>Your prompt was: \"'' @ c_prompt cl @ ''\"</p>'') ?G"
    using poll_ends [of cl replies ui0] timeoutHtml_heading [of cl] timeoutHtml_prompt [of cl]
    by auto
  from c14 c5 c6 c7 show ?thesis by blast
qed

theorem pollJobStatus_terminates_witness:
  "requests (pollJobStatus sample_closure replies_done_at_2 sample_ui) = 3
   \<and> slept_ms (pollJobStatus sample_closure replies_done_at_2 sample_ui) = 4000
   \<and> generatedHtml (run_ui (pollJobStatus sample_closure replies_done_at_2 sample_ui)) = ''<h1>Memo</h1>''
   \<and> requests (pollJobStatus sample_closure replies_failed_at_1 sample_ui) = 2
   \<and> sublist ''<p>We encountered an error: Invalid response format</p>''
        (generatedHtml (run_ui (pollJobStatus sample_closure replies_failed_at_1 sample_ui)))
   \<and> sublist ''<p>Your prompt was: \"Write a memo\"</p>''
        (generatedHtml (run_ui (pollJobStatus sample_closure replies_failed_at_1 sample_ui)))
   \<and> requests (pollJobStatus sample_closure replies_never_done sample_ui) = 60
   \<and> slept_ms (pollJobStatus sample_closure replies_never_done sample_ui) = 120000
   \<and> sublist ''<h1>Processing Timeout</h1>''
        (generatedHtml (run_ui (pollJobStatus sample_closure replies_never_done sample_ui)))
   \<and> sublist ''<p>Error: Job processing timed out after 2 minutes</p>''
        (generatedHtml (run_ui (pollJobStatus sample_closure replies_never_done sample_ui)))
   \<and> sublist ''<p>Your prompt was: \"Write a memo\"</p>''
        (generatedHtml (run_ui (pollJobStatus sample_closure replies_never_done sample_ui)))"
proof -
  have a: "\<forall>i<2. in_flight (replies_done_at_2 i)"
    by (simp add: in_flight_def reply_data_def is_terminal_def replies_done_at_2_def processing_data_def)
  have b: "reply_data (replies_done_at_2 2) = Some completed_data" "is_terminal completed_data"
    "sd_status completed_data = Some ''completed''" "sd_html completed_data = Some ''<h1>Memo</h1>''"
    by (simp_all add: reply_data_def is_terminal_def replies_done_at_2_def completed_data_def)
  have a': "\<forall>i<1. in_flight (replies_failed_at_1 i)"
    by (simp add: in_flight_def reply_data_def is_terminal_def replies_failed_at_1_def processing_data_def)
  have b': "reply_data (replies_failed_at_1 1) = Some failed_data" "is_terminal failed_data"
    "sd_status failed_data = Some ''failed''" "str_or (sd_html failed_data) [] = []"
    "str_or (sd_error failed_data) ''Unknown error'' = ''Invalid response format''"
    by (simp_all add: reply_data_def is_terminal_def replies_failed_at_1_def failed_data_def str_or_def)
  have c: "\<forall>i<60. in_flight (replies_never_done i)"
    by (simp add: in_flight_def reply_data_def is_terminal_def replies_never_done_def processing_data_def)
  have p: "c_prompt sample_closure = ''Write a memo''" by (simp add: sample_closure_def)
  note t = pollJobStatus_terminates [of sample_closure replies_done_at_2 sample_ui]
  note f = pollJobStatus_terminates [of sample_closure replies_failed_at_1 sample_ui]
  note u = pollJobStatus_terminates [of sample_closure replies_never_done sample_ui]
  have t3: "slept_ms (pollJobStatus sample_closure replies_done_at_2 sample_ui)
      = 2000 * attempts (pollJobStatus sample_closure replies_done_at_2 sample_ui)"
    using t by (elim conjE)
  have u3: "slept_ms (pollJobStatus sample_closure replies_never_done sample_ui)
      = 2000 * attempts (pollJobStatus sample_closure replies_never_done sample_ui)"
    using u by (elim conjE)
  have "2 < (60::nat) \<and> (\<forall>i<2. in_flight (replies_done_at_2 i))
          \<and> reply_data (replies_done_at_2 2) = Some completed_data \<and> is_terminal completed_data"
    using a b by simp
  with t [THEN conjunct2, THEN conjunct2, THEN conjunct2, THEN conjunct2, THEN conjunct1,
      rule_format, of 2 completed_data] t3 b
  have r1: "requests (pollJobStatus sample_closure replies_done_at_2 sample_ui) = 3
   \<and> slept_ms (pollJobStatus sample_closure replies_done_at_2 sample_ui) = 4000
   \<and> generatedHtml (run_ui (pollJobStatus sample_closure replies_done_at_2 sample_ui)) = ''<h1>Memo</h1>''"
    by (simp add: str_or_def)
  have h: "1 < (60::nat) \<and> (\<forall>i<1. in_flight (replies_failed_at_1 i))
          \<and> reply_data (replies_failed_at_1 1) = Some failed_data \<and> is_terminal failed_data"
    using a' b' by simp
  note F = f [THEN conjunct2, THEN conjunct2, THEN conjunct2, THEN conjunct2, THEN conjunct1,
      THEN spec, THEN spec, THEN mp, of 1 failed_data, OF h]
  have r2a: "requests (pollJobStatus sample_closure replies_failed_at_1 sample_ui) = 2"
    using F [THEN conjunct1] by simp
  have g: "sd_status failed_data = Some ''failed'' \<and> str_or (sd_html failed_data) [] = []"
    using b' by simp
  have r2b: "sublist ''<p>We encountered an error: Invalid response format</p>''
        (generatedHtml (run_ui (pollJobStatus sample_closure replies_failed_at_1 sample_ui)))
   \<and> sublist ''<p>Your prompt was: \"Write a memo\"</p>''
        (generatedHtml (run_ui (pollJobStatus sample_closure replies_failed_at_1 sample_ui)))"
    using F [THEN conjunct2, THEN conjunct2, THEN conjunct2, THEN mp, OF g] b'(5) p by simp
  have r2: "requests (pollJobStatus sample_closure replies_failed_at_1 sample_ui) = 2
   \<and> sublist ''<p>We encountered an error: Invalid response format</p>''
        (generatedHtml (run_ui (pollJobStatus sample_closure replies_failed_at_1 sample_ui)))
   \<and> sublist ''<p>Your prompt was: \"Write a memo\"</p>''
        (generatedHtml (run_ui (pollJobStatus sample_closure replies_failed_at_1 sample_ui)))"
    using r2a r2b by simp
  note U = u [THEN conjunct2, THEN conjunct2, THEN conjunct2, THEN conjunct2, THEN conjunct2,
      THEN conjunct1, THEN mp, OF c]
  have r3a: "requests (pollJobStatus sample_closure replies_never_done sample_ui) = 60
   \<and> slept_ms (pollJobStatus sample_closure replies_never_done sample_ui) = 120000"
    using U [THEN conjunct1] U [THEN conjunct2, THEN conjunct1] u3 by simp
  have r3b: "sublist ''<h1>Processing Timeout</h1>''
        (generatedHtml (run_ui (pollJobStatus sample_closure replies_never_done sample_ui)))
   \<and> sublist ''<p>Error: Job processing timed out after 2 minutes</p>''
        (generatedHtml (run_ui (pollJobStatus sample_closure replies_never_done sample_ui)))
   \<and> sublist ''<p>Your prompt was: \"Write a memo\"</p>''
        (generatedHtml (run_ui (pollJobStatus sample_closure replies_never_done sample_ui)))"
    using U [THEN conjunct2, THEN conjunct2, THEN conjunct2] p by simp
  from r1 r2 r3a r3b show ?thesis by simp
qed

end
